theory Spec2Isabelle
  imports Complex_Main "HOL-Library.Signed_Division"
begin

section \<open>Index arithmetic of the element-cyclic distribution\<close>

text \<open>
  The index helpers \<^verbatim>\<open>Shift_\<close> and \<^verbatim>\<open>Length_\<close> are called by the pack loops of
  \<^verbatim>\<open>src/core/DistMatrix/General.cpp\<close> but are declared in a header that is not
  among the sources at hand.  The trailing underscore of the C++ names is dropped.
\<close>

definition Shift :: "int \<Rightarrow> int \<Rightarrow> int \<Rightarrow> int" where
  \<comment> \<open>Modelled from the spec: \<^verbatim>\<open>Shift_\<close> is absent from the sources;
      \<open>Shift(rank, align, stride) = (rank - align + stride) mod stride\<close>.\<close>
  "Shift rank align stride = (rank - align + stride) mod stride"

definition ceil_quot :: "int \<Rightarrow> int \<Rightarrow> int" where
  \<comment> \<open>The ceiling of the rational quotient \<open>a / b\<close>, for a positive \<open>b\<close>.\<close>
  "ceil_quot a b = - ((- a) div b)"

definition Length :: "int \<Rightarrow> int \<Rightarrow> int \<Rightarrow> int" where
  \<comment> \<open>Modelled from the spec: \<^verbatim>\<open>Length_\<close> is absent from the sources;
      \<open>Length(globalExtent, shift, stride) = ceil((globalExtent - shift) / stride)\<close>, floored at 0.\<close>
  "Length globalExtent shift stride = max 0 (ceil_quot (globalExtent - shift) stride)"

definition owns_index :: "int \<Rightarrow> int \<Rightarrow> int \<Rightarrow> int \<Rightarrow> int \<Rightarrow> bool" where
  \<comment> \<open>The process of coordinate \<open>rank\<close> along an axis of extent \<open>n\<close> holds the global indices
      \<open>shift + iLoc * stride\<close> for the local indices \<open>iLoc < Length n shift stride\<close>:
      the rows and columns that the pack loop of \<^verbatim>\<open>SumScatterUpdate\<close> reads for that rank.\<close>
  "owns_index n rank align stride i =
     (let shift = Shift rank align stride
      in i \<in> set (map (\<lambda>iLoc. shift + iLoc * stride) [0..Length n shift stride - 1]))"

definition owns :: "int \<Rightarrow> int \<Rightarrow> int \<Rightarrow> int \<Rightarrow> int \<Rightarrow> int \<Rightarrow> int \<Rightarrow> int \<Rightarrow> int \<Rightarrow> int \<Rightarrow> bool" where
  \<comment> \<open>Process \<open>(k, l)\<close> of an \<open>r \<times> c\<close> grid owns entry \<open>(i, j)\<close> of a \<open>height \<times> width\<close> matrix.\<close>
  "owns height width r c cAlign rAlign k l i j =
     (owns_index height k cAlign r i \<and> owns_index width l rAlign c j)"

section \<open>Data model of \<^verbatim>\<open>GeneralDistMatrix<T,U,V>\<close>\<close>

text \<open>
  The embedding follows \<^verbatim>\<open>src/core/DistMatrix/General.cpp\<close>.  The C++ type \<^verbatim>\<open>Int\<close> is
  modelled by \<open>int\<close>; \<^verbatim>\<open>/\<close> and \<^verbatim>\<open>%\<close> on \<^verbatim>\<open>Int\<close> truncate towards zero and are written
  \<open>sdiv\<close> and \<open>smod\<close>.  The element type \<^verbatim>\<open>T\<close> is a commutative ring.  A raw buffer
  \<^verbatim>\<open>T*\<close> is a store from offsets to elements.  The \<^verbatim>\<open>DEBUG_ONLY\<close> blocks (call-stack
  entries and the assertions \<^verbatim>\<open>AssertSameGrids\<close>, \<^verbatim>\<open>AssertNotLocked\<close>, \<^verbatim>\<open>AssertSameSize\<close>)
  exist in debug builds only and their helpers are not among the sources; the embedding
  is of the release build, where \<^verbatim>\<open>DEBUG_ONLY\<close> expands to nothing.
\<close>

datatype Dist = MC | MD | MR | VC | VR | STAR | CIRC

datatype error = LogicError string

datatype Comm = DistComm | PartialUnionRowComm | PartialUnionColComm

record 'g DistData =
  colDist :: Dist
  rowDist :: Dist
  colAlign :: int
  rowAlign :: int
  root :: int
  grid :: 'g

text \<open>
  The state of one process's matrix object.  The accessors of \<^verbatim>\<open>AbstractDistMatrix\<close>
  that \<^verbatim>\<open>General.cpp\<close> calls are fields of the same name.  \<^verbatim>\<open>ColStride()\<close> and
  \<^verbatim>\<open>RowStride()\<close> are virtual and computed from the grid: the fields \<open>ColStrideOn\<close> and
  \<open>RowStrideOn\<close> hold the method, applied to the current grid.
\<close>

record ('a, 'g) DistMatrix =
  Height :: int
  Width :: int
  ColAlign :: int
  RowAlign :: int
  ColConstrained :: bool
  RowConstrained :: bool
  Root :: int
  Grid :: 'g
  ColStrideOn :: "'g \<Rightarrow> int"
  RowStrideOn :: "'g \<Rightarrow> int"
  ColShift :: int
  RowShift :: int
  LocalHeight :: int
  LocalWidth :: int
  LDim :: int
  Buffer :: "int \<Rightarrow> 'a"
  auxMemory :: "int \<Rightarrow> 'a"
  Participating :: bool
  PartialRowStride :: int
  PartialUnionRowStride :: int
  PartialRowRank :: int
  PartialColStride :: int
  PartialUnionColStride :: int
  PartialColRank :: int

definition ColStride :: "('a, 'g) DistMatrix \<Rightarrow> int" where
  "ColStride M = ColStrideOn M (Grid M)"

definition RowStride :: "('a, 'g) DistMatrix \<Rightarrow> int" where
  "RowStride M = RowStrideOn M (Grid M)"

text \<open>
  What a call does on one process: it returns, it throws (the object is left in the state
  it had at the \<^verbatim>\<open>throw\<close>), or it enters \<^verbatim>\<open>mpi::ReduceScatter(buffer, recvSize, comm)\<close> and
  resumes with the received buffer.
\<close>

datatype ('s, 'a) outcome =
    Returns 's
  | Throws error 's
  | ReduceScatter "int \<Rightarrow> 'a" int Comm "(int \<Rightarrow> 'a) \<Rightarrow> 's"

definition For :: "int \<Rightarrow> (int \<Rightarrow> 's \<Rightarrow> 's) \<Rightarrow> 's \<Rightarrow> 's" where
  \<comment> \<open>\<^verbatim>\<open>for( Int k=0; k<n; ++k ) body\<close>\<close>
  "For n body s = fold body (map int [0..<nat n]) s"

definition LockedBuffer :: "('a, 'g) DistMatrix \<Rightarrow> int \<Rightarrow> int \<Rightarrow> (int \<Rightarrow> 'a)" where
  \<comment> \<open>\<^verbatim>\<open>A.LockedBuffer(i,j)\<close>: the pointer to local entry \<open>(i, j)\<close> of the column-major buffer.\<close>
  "LockedBuffer A i j = (\<lambda>t. Buffer A (i + j * LDim A + t))"

definition InterleaveMatrix ::
  "int \<Rightarrow> int \<Rightarrow> (int \<Rightarrow> 'a) \<Rightarrow> int \<Rightarrow> int \<Rightarrow> (int \<Rightarrow> 'a) \<Rightarrow> int \<Rightarrow> int \<Rightarrow> int \<Rightarrow> (int \<Rightarrow> 'a)" where
  \<comment> \<open>Modelled from the spec: \<^verbatim>\<open>InterleaveMatrix\<close> is absent from the sources.  It is the
      local pack loop that copies a sub-block into a send buffer: called as
      \<^verbatim>\<open>InterleaveMatrix(height, width, A, colStrideA, rowStrideA, B, colStrideB, rowStrideB)\<close>,
      it copies \<open>A[i*colStrideA + j*rowStrideA]\<close> to \<open>B[i*colStrideB + j*rowStrideB]\<close>.
      The destination pointer \<open>B\<close> is the buffer \<open>buf\<close> at offset \<open>offB\<close>.\<close>
  "InterleaveMatrix height width A colStrideA rowStrideA buf offB colStrideB rowStrideB =
     For width (\<lambda>j. For height (\<lambda>i B.
       B(offB + i * colStrideB + j * rowStrideB := A (i * colStrideA + j * rowStrideA)))) buf"

definition InterleaveMatrixUpdate ::
  "'a::comm_ring_1 \<Rightarrow> int \<Rightarrow> int \<Rightarrow> (int \<Rightarrow> 'a) \<Rightarrow> int \<Rightarrow> int \<Rightarrow> (int \<Rightarrow> 'a) \<Rightarrow> int \<Rightarrow> int \<Rightarrow> (int \<Rightarrow> 'a)" where
  \<comment> \<open>Modelled from the spec: \<^verbatim>\<open>InterleaveMatrixUpdate\<close> is absent from the sources.  It is
      the local unpack loop: \<open>B[i*colStrideB + j*rowStrideB] += alpha * A[i*colStrideA + j*rowStrideA]\<close>.\<close>
  "InterleaveMatrixUpdate alpha height width A colStrideA rowStrideA B colStrideB rowStrideB =
     For width (\<lambda>j. For height (\<lambda>i B.
       B(i * colStrideB + j * rowStrideB :=
           B (i * colStrideB + j * rowStrideB) + alpha * A (i * colStrideA + j * rowStrideA)))) B"

definition MaxLength :: "int \<Rightarrow> int \<Rightarrow> int" where
  \<comment> \<open>Modelled from the spec: \<^verbatim>\<open>MaxLength\<close> is absent from the sources; the largest local
      length over the shifts of a stride, which is that of shift 0.\<close>
  "MaxLength n stride = Length n 0 stride"

section \<open>Alignment\<close>

definition SetGrid :: "'g \<Rightarrow> ('a, 'g) DistMatrix \<Rightarrow> ('a, 'g) DistMatrix" where
  \<comment> \<open>Modelled from the spec: \<^verbatim>\<open>SetGrid\<close> is absent from the sources; the matrix references
      the given grid.\<close>
  "SetGrid g M = M\<lparr>Grid := g\<rparr>"

definition SetRoot :: "int \<Rightarrow> ('a, 'g) DistMatrix \<Rightarrow> ('a, 'g) DistMatrix" where
  \<comment> \<open>Modelled from the spec: \<^verbatim>\<open>SetRoot\<close> is absent from the sources; the matrix takes the
      given owning root.\<close>
  "SetRoot r M = M\<lparr>Root := r\<rparr>"

definition AlignCols :: "int \<Rightarrow> bool \<Rightarrow> ('a, 'g) DistMatrix \<Rightarrow> ('a, 'g) DistMatrix" where
  \<comment> \<open>Modelled from the spec: \<^verbatim>\<open>AlignCols\<close> is absent from the sources; the matrix adopts the
      column alignment, and \<open>constrain\<close> marks it as constrained.\<close>
  "AlignCols a constrain M =
     M\<lparr>ColAlign := a, ColConstrained := (ColConstrained M \<or> constrain)\<rparr>"

definition AlignRows :: "int \<Rightarrow> bool \<Rightarrow> ('a, 'g) DistMatrix \<Rightarrow> ('a, 'g) DistMatrix" where
  \<comment> \<open>Modelled from the spec: \<^verbatim>\<open>AlignRows\<close> is absent from the sources; the matrix adopts the
      row alignment, and \<open>constrain\<close> marks it as constrained.\<close>
  "AlignRows a constrain M =
     M\<lparr>RowAlign := a, RowConstrained := (RowConstrained M \<or> constrain)\<rparr>"

text \<open>
  The template constants \<^verbatim>\<open>U\<close>, \<^verbatim>\<open>UPart\<close>, \<^verbatim>\<open>UScat\<close>, \<^verbatim>\<open>UGath\<close> (and \<^verbatim>\<open>V\<close>, \<dots>) of
  \<^verbatim>\<open>GeneralDistMatrix<T,U,V>\<close> are declared in a header that is not among the sources;
  they are parameters here.
\<close>

definition AlignColsWith ::
  "Dist \<Rightarrow> Dist \<Rightarrow> Dist \<Rightarrow> Dist \<Rightarrow> 'g DistData \<Rightarrow> bool \<Rightarrow> bool \<Rightarrow> ('a, 'g) DistMatrix
     \<Rightarrow> (('a, 'g) DistMatrix, 'a) outcome" where
  "AlignColsWith U UPart UScat UGath data constrain allowMismatch M =
     (let M = SetGrid (grid data) M;
          M = SetRoot (root data) M
      in if colDist data = U \<or> colDist data = UPart then
           Returns (AlignCols (colAlign data) constrain M)
         else if rowDist data = U \<or> rowDist data = UPart then
           Returns (AlignCols (rowAlign data) constrain M)
         else if colDist data = UScat then
           Returns (AlignCols (colAlign data smod ColStride M) constrain M)
         else if rowDist data = UScat then
           Returns (AlignCols (rowAlign data smod ColStride M) constrain M)
         else if U \<noteq> UGath \<and> colDist data \<noteq> UGath \<and> rowDist data \<noteq> UGath \<and>
                 \<not> allowMismatch then
           Throws (LogicError ''Nonsensical alignment'') M
         else Returns M)"

definition AlignRowsWith ::
  "Dist \<Rightarrow> Dist \<Rightarrow> Dist \<Rightarrow> Dist \<Rightarrow> 'g DistData \<Rightarrow> bool \<Rightarrow> bool \<Rightarrow> ('a, 'g) DistMatrix
     \<Rightarrow> (('a, 'g) DistMatrix, 'a) outcome" where
  "AlignRowsWith V VPart VScat VGath data constrain allowMismatch M =
     (let M = SetGrid (grid data) M;
          M = SetRoot (root data) M
      in if colDist data = V \<or> colDist data = VPart then
           Returns (AlignRows (colAlign data) constrain M)
         else if rowDist data = V \<or> rowDist data = VPart then
           Returns (AlignRows (rowAlign data) constrain M)
         else if colDist data = VScat then
           Returns (AlignRows (colAlign data smod RowStride M) constrain M)
         else if rowDist data = VScat then
           Returns (AlignRows (rowAlign data smod RowStride M) constrain M)
         else if V \<noteq> VGath \<and> colDist data \<noteq> VGath \<and> rowDist data \<noteq> VGath \<and>
                 \<not> allowMismatch then
           Throws (LogicError ''Nonsensical alignment'') M
         else Returns M)"

section \<open>Reduce-scatter redistributions\<close>

text \<open>
  \<^verbatim>\<open>mpi::Pad\<close> is not among the sources and is the parameter \<open>Pad\<close> of the three
  operations.  \<^verbatim>\<open>auxMemory_.Require\<close> hands out the object's scratch memory, whose
  previous contents are the field \<open>auxMemory\<close>; \<^verbatim>\<open>Release\<close> leaves the contents in place.
\<close>

definition SumScatterUpdate ::
  "(int \<Rightarrow> int) \<Rightarrow> 'a::comm_ring_1 \<Rightarrow> ('a, 'g) DistMatrix \<Rightarrow> ('a, 'g) DistMatrix
     \<Rightarrow> (('a, 'g) DistMatrix, 'a) outcome" where
  "SumScatterUpdate Pad alpha A M =
     (if \<not> Participating M then Returns M
      else
        let colStride = ColStride M;
            rowStride = RowStride M;
            colAlign = ColAlign M;
            rowAlign = RowAlign M;
            height = Height M;
            width = Width M;
            localHeight = LocalHeight M;
            localWidth = LocalWidth M;
            maxLocalHeight = MaxLength height colStride;
            maxLocalWidth = MaxLength width rowStride;
            recvSize = Pad (maxLocalHeight * maxLocalWidth);
            sendSize = colStride * rowStride * recvSize;
            buffer = For rowStride (\<lambda>l.
              let thisRowShift = Shift l rowAlign rowStride;
                  thisLocalWidth = Length width thisRowShift rowStride
              in For colStride (\<lambda>k buffer.
                   let thisColShift = Shift k colAlign colStride;
                       thisLocalHeight = Length height thisColShift colStride
                   in InterleaveMatrix thisLocalHeight thisLocalWidth
                        (LockedBuffer A thisColShift thisRowShift) colStride (LDim A)
                        buffer ((k + l * colStride) * recvSize) 1 thisLocalHeight))
              (auxMemory M)
        in ReduceScatter buffer recvSize DistComm (\<lambda>buffer.
             M\<lparr>Buffer := InterleaveMatrixUpdate alpha localHeight localWidth
                             buffer 1 localHeight (Buffer M) 1 (LDim M),
               auxMemory := buffer\<rparr>))"

definition PartialRowSumScatterUpdate ::
  "(int \<Rightarrow> int) \<Rightarrow> 'a::comm_ring_1 \<Rightarrow> ('a, 'g) DistMatrix \<Rightarrow> ('a, 'g) DistMatrix
     \<Rightarrow> (('a, 'g) DistMatrix, 'a) outcome" where
  "PartialRowSumScatterUpdate Pad alpha A M =
     (if \<not> Participating M then Returns M
      else if RowAlign M smod RowStride A = RowAlign A then
        let rowStride = RowStride M;
            rowStridePart = PartialRowStride M;
            rowStrideUnion = PartialUnionRowStride M;
            rowRankPart = PartialRowRank M;
            rowAlign = RowAlign M;
            rowShiftOfA = RowShift A;
            height = Height M;
            width = Width M;
            localWidth = LocalWidth M;
            maxLocalWidth = MaxLength width rowStride;
            recvSize = Pad (height * maxLocalWidth);
            sendSize = rowStrideUnion * recvSize;
            buffer = For rowStrideUnion (\<lambda>k buffer.
              let thisRank = rowRankPart + k * rowStridePart;
                  thisRowShift = Shift thisRank rowAlign rowStride;
                  thisRowOffset = (thisRowShift - rowShiftOfA) sdiv rowStridePart;
                  thisLocalWidth = Length width thisRowShift rowStride
              in InterleaveMatrix height thisLocalWidth
                   (LockedBuffer A 0 thisRowOffset) 1 (rowStrideUnion * LDim A)
                   buffer (k * recvSize) 1 height)
              (auxMemory M)
        in ReduceScatter buffer recvSize PartialUnionRowComm (\<lambda>buffer.
             M\<lparr>Buffer := InterleaveMatrixUpdate alpha height localWidth
                             buffer 1 height (Buffer M) 1 (LDim M),
               auxMemory := buffer\<rparr>)
      else Throws (LogicError ''Unaligned PartialRowSumScatterUpdate not implemented'') M)"

definition PartialColSumScatterUpdate ::
  "(int \<Rightarrow> int) \<Rightarrow> 'a::comm_ring_1 \<Rightarrow> ('a, 'g) DistMatrix \<Rightarrow> ('a, 'g) DistMatrix
     \<Rightarrow> (('a, 'g) DistMatrix, 'a) outcome" where
  "PartialColSumScatterUpdate Pad alpha A M =
     (if \<not> Participating M then Returns M
      else if ColAlign M smod ColStride A = ColAlign A then
        let colStride = ColStride M;
            colStridePart = PartialColStride M;
            colStrideUnion = PartialUnionColStride M;
            colRankPart = PartialColRank M;
            colAlign = ColAlign M;
            colShiftOfA = ColShift A;
            height = Height M;
            width = Width M;
            localHeight = LocalHeight M;
            maxLocalHeight = MaxLength height colStride;
            recvSize = Pad (maxLocalHeight * width);
            sendSize = colStrideUnion * recvSize;
            buffer = For colStrideUnion (\<lambda>k buffer.
              let thisRank = colRankPart + k * colStridePart;
                  thisColShift = Shift thisRank colAlign colStride;
                  thisColOffset = (thisColShift - colShiftOfA) sdiv colStridePart;
                  thisLocalHeight = Length height thisColShift colStride
              in InterleaveMatrix thisLocalHeight width
                   (LockedBuffer A thisColOffset 0) colStrideUnion (LDim A)
                   buffer (k * recvSize) 1 thisLocalHeight)
              (auxMemory M)
        in ReduceScatter buffer recvSize PartialUnionColComm (\<lambda>buffer.
             M\<lparr>Buffer := InterleaveMatrixUpdate alpha localHeight width
                             buffer 1 localHeight (Buffer M) 1 (LDim M),
               auxMemory := buffer\<rparr>)
      else Throws (LogicError ''Unaligned PartialColSumScatterUpdate not implemented'') M)"

text \<open>
  The collective, seen from all ranks \<open>0, \<dots>, commSize - 1\<close> of the communicator at once:
  rank \<open>q\<close> receives, in the first \<open>recvSize\<close> entries of its buffer, the element-wise sum
  over all ranks of the \<open>q\<close>-th segment of their send buffers.
\<close>

definition mpi_ReduceScatter :: "int \<Rightarrow> (int \<Rightarrow> int \<Rightarrow> 'a::comm_ring_1) \<Rightarrow> int \<Rightarrow> int \<Rightarrow> (int \<Rightarrow> 'a)" where
  \<comment> \<open>Modelled from the spec: \<^verbatim>\<open>mpi::ReduceScatter\<close> is absent from the sources; one
      reduce-scatter collective over the communicator on per-owner contiguous segments.\<close>
  "mpi_ReduceScatter commSize sendBufs recvSize q =
     (\<lambda>t. if 0 \<le> t \<and> t < recvSize
          then (\<Sum>p \<leftarrow> [0..commSize - 1]. sendBufs p (q * recvSize + t))
          else sendBufs q t)"

fun sendBuffer :: "('s, 'a::comm_ring_1) outcome \<Rightarrow> (int \<Rightarrow> 'a)" where
  "sendBuffer (ReduceScatter buffer recvSize comm resume) = buffer"
| "sendBuffer (Returns s) = (\<lambda>t. 0)"
| "sendBuffer (Throws e s) = (\<lambda>t. 0)"

definition complete_collective :: "int \<Rightarrow> (int \<Rightarrow> ('s, 'a::comm_ring_1) outcome) \<Rightarrow> int \<Rightarrow> ('s, 'a) outcome" where
  \<comment> \<open>Every rank of the communicator has entered the same collective; rank \<open>q\<close> resumes.\<close>
  "complete_collective commSize procs q =
     (case procs q of
        ReduceScatter buffer recvSize comm resume \<Rightarrow>
          Returns (resume (mpi_ReduceScatter commSize (\<lambda>p. sendBuffer (procs p)) recvSize q))
      | out \<Rightarrow> out)"

text \<open>
  The value the contract of \<^verbatim>\<open>SumScatterUpdate(alpha, A)\<close> prescribes for the global entry
  \<open>(i, j)\<close>: the old destination value plus \<open>alpha\<close> times the sum, over the communicator,
  of the replicas' entries \<open>(i, j)\<close>.  \<open>A p\<close> is the replica held by rank \<open>p\<close>, whose local
  indices are the global ones.
\<close>

definition SumScatterUpdate_spec ::
  "'a::comm_ring_1 \<Rightarrow> int \<Rightarrow> (int \<Rightarrow> ('a, 'g) DistMatrix) \<Rightarrow> 'a \<Rightarrow> int \<Rightarrow> int \<Rightarrow> 'a" where
  "SumScatterUpdate_spec alpha commSize A old i j =
     old + alpha * (\<Sum>p \<leftarrow> [0..commSize - 1]. Buffer (A p) (i + j * LDim (A p)))"

section \<open>Diagonal extraction and assignment\<close>

text \<open>
  The proxy \<open>d\<close> of \<^verbatim>\<open>GetDiagonalHelper\<close> and \<^verbatim>\<open>SetDiagonalHelper\<close> is produced by
  \<^verbatim>\<open>WriteProxy\<close>/\<^verbatim>\<open>ReadProxy\<close> under a control structure that constrains its column
  alignment to \<^verbatim>\<open>DiagonalAlign(offset)\<close> and its root to \<^verbatim>\<open>DiagonalRoot(offset)\<close>; these and
  \<^verbatim>\<open>Resize\<close> are not among the sources.  The helpers below take the proxy as it is after
  these calls.  The functor \<open>func(alpha, beta)\<close> assigns to its first argument and is
  modelled by the function giving the new value.
\<close>

definition GetDiagonalHelper ::
  "('b \<Rightarrow> 'a \<Rightarrow> 'b) \<Rightarrow> ('a, 'g) DistMatrix \<Rightarrow> ('b, 'g) DistMatrix \<Rightarrow> int \<Rightarrow> ('b, 'g) DistMatrix" where
  "GetDiagonalHelper func M d offset =
     (if \<not> Participating d then d
      else
        let diagShift = ColShift d;
            iStart = diagShift + max (- offset) 0;
            jStart = diagShift + max offset 0;
            colStride = ColStride M;
            rowStride = RowStride M;
            iLocStart = (iStart - ColShift M) sdiv colStride;
            jLocStart = (jStart - RowShift M) sdiv rowStride;
            iLocStride = ColStride d sdiv colStride;
            jLocStride = ColStride d sdiv rowStride;
            localDiagLength = LocalHeight d;
            buffer = Buffer M;
            ldim = LDim M
        in d\<lparr>Buffer := For localDiagLength (\<lambda>k dBuf.
               let iLoc = iLocStart + k * iLocStride;
                   jLoc = jLocStart + k * jLocStride
               in dBuf(k := func (dBuf k) (buffer (iLoc + jLoc * ldim))))
             (Buffer d)\<rparr>)"

definition SetDiagonalHelper ::
  "('a \<Rightarrow> 'b \<Rightarrow> 'a) \<Rightarrow> ('b, 'g) DistMatrix \<Rightarrow> int \<Rightarrow> ('a, 'g) DistMatrix \<Rightarrow> ('a, 'g) DistMatrix" where
  "SetDiagonalHelper func d offset M =
     (if \<not> Participating d then M
      else
        let diagShift = ColShift d;
            iStart = diagShift + max (- offset) 0;
            jStart = diagShift + max offset 0;
            colStride = ColStride M;
            rowStride = RowStride M;
            iLocStart = (iStart - ColShift M) sdiv colStride;
            jLocStart = (jStart - RowShift M) sdiv rowStride;
            iLocStride = ColStride d sdiv colStride;
            jLocStride = ColStride d sdiv rowStride;
            localDiagLength = LocalHeight d;
            dBuf = Buffer d;
            ldim = LDim M
        in M\<lparr>Buffer := For localDiagLength (\<lambda>k buffer.
               let iLoc = iLocStart + k * iLocStride;
                   jLoc = jLocStart + k * jLocStride
               in buffer(iLoc + jLoc * ldim := func (buffer (iLoc + jLoc * ldim)) (dBuf k)))
             (Buffer M)\<rparr>)"

definition GetDiagonal :: "('a, 'g) DistMatrix \<Rightarrow> ('a, 'g) DistMatrix \<Rightarrow> int \<Rightarrow> ('a, 'g) DistMatrix" where
  "GetDiagonal M d offset = GetDiagonalHelper (\<lambda>alpha beta. beta) M d offset"

definition SetDiagonal :: "('a, 'g) DistMatrix \<Rightarrow> int \<Rightarrow> ('a, 'g) DistMatrix \<Rightarrow> ('a, 'g) DistMatrix" where
  "SetDiagonal d offset M = SetDiagonalHelper (\<lambda>alpha beta. beta) d offset M"

definition diag_index :: "('a, 'g) DistMatrix \<Rightarrow> ('b, 'g) DistMatrix \<Rightarrow> int \<Rightarrow> int \<Rightarrow> int" where
  \<comment> \<open>The buffer offset \<open>iLoc + jLoc * ldim\<close> that both helpers compute for the \<open>k\<close>-th local
      diagonal entry.\<close>
  "diag_index M d offset k =
     (let diagShift = ColShift d;
          iStart = diagShift + max (- offset) 0;
          jStart = diagShift + max offset 0;
          iLoc = (iStart - ColShift M) sdiv ColStride M + k * (ColStride d sdiv ColStride M);
          jLoc = (jStart - RowShift M) sdiv RowStride M + k * (ColStride d sdiv RowStride M)
      in iLoc + jLoc * LDim M)"

text \<open>
  The owners of a diagonal.  Entry \<open>(i, j)\<close> of a matrix distributed over an \<open>r \<times> c\<close> grid is
  held by the process whose shifts are the residues of \<open>i\<close> and \<open>j\<close>; the \<open>t\<close>-th entry of the
  diagonal of offset \<open>offset\<close> is \<open>(t + max(-offset,0), t + max(offset,0))\<close>, as in
  \<^verbatim>\<open>GetDiagonalHelper\<close>.
\<close>

definition owner_of :: "int \<Rightarrow> int \<Rightarrow> int \<Rightarrow> int \<Rightarrow> int \<Rightarrow> int \<Rightarrow> int \<times> int" where
  "owner_of r c cAlign rAlign i j = ((i + cAlign) mod r, (j + rAlign) mod c)"

definition diag_owners :: "int \<Rightarrow> int \<Rightarrow> int \<Rightarrow> int \<Rightarrow> int \<Rightarrow> int \<Rightarrow> (int \<times> int) list" where
  \<comment> \<open>The distinct owners of the first \<open>n\<close> entries of the diagonal.\<close>
  "diag_owners r c cAlign rAlign offset n =
     remdups (map (\<lambda>t. owner_of r c cAlign rAlign (t + max (- offset) 0) (t + max offset 0))
                  [0..n - 1])"

section \<open>Triangular rank-2k update\<close>

datatype UpperOrLower = LOWER | UPPER

datatype Orientation = NORMAL | TRANSPOSE | ADJOINT

definition Trr2kTTNN ::
  "(UpperOrLower \<Rightarrow> Orientation \<Rightarrow> Orientation \<Rightarrow> 't \<Rightarrow> 'm \<Rightarrow> 'm \<Rightarrow> 'm \<Rightarrow> 'm \<Rightarrow> 't \<Rightarrow> 'm \<Rightarrow> 'm)
     \<Rightarrow> UpperOrLower \<Rightarrow> Orientation \<Rightarrow> Orientation \<Rightarrow> 't \<Rightarrow> 'm \<Rightarrow> 'm \<Rightarrow> 'm \<Rightarrow> 'm \<Rightarrow> 't \<Rightarrow> 'm \<Rightarrow> 'm" where
  \<comment> \<open>\<^verbatim>\<open>Trr2kNNTT\<close>, defined in \<^verbatim>\<open>NNTT.hpp\<close>, is not among the sources and is the first
      parameter.  The result is the new value of \<open>E\<close>.\<close>
  "Trr2kTTNN Trr2kNNTT uplo orientationOfA orientationOfB alpha A B C D beta E =
     Trr2kNNTT uplo orientationOfA orientationOfB alpha C D A B beta E"

record matrix =
  rows :: nat
  cols :: nat
  entry :: "nat \<Rightarrow> nat \<Rightarrow> complex"

definition orient :: "Orientation \<Rightarrow> matrix \<Rightarrow> matrix" where
  "orient orientation A =
     (case orientation of
        NORMAL \<Rightarrow> A
      | TRANSPOSE \<Rightarrow> \<lparr>rows = cols A, cols = rows A, entry = (\<lambda>i j. entry A j i)\<rparr>
      | ADJOINT \<Rightarrow> \<lparr>rows = cols A, cols = rows A, entry = (\<lambda>i j. cnj (entry A j i))\<rparr>)"

definition product_entry :: "matrix \<Rightarrow> matrix \<Rightarrow> nat \<Rightarrow> nat \<Rightarrow> complex" where
  "product_entry A B i j = (\<Sum>k \<leftarrow> [0..<cols A]. entry A i k * entry B k j)"

definition in_triangle :: "UpperOrLower \<Rightarrow> nat \<Rightarrow> nat \<Rightarrow> bool" where
  "in_triangle uplo i j = (case uplo of LOWER \<Rightarrow> j \<le> i | UPPER \<Rightarrow> i \<le> j)"

definition Trr2kNNTT_spec ::
  "UpperOrLower \<Rightarrow> Orientation \<Rightarrow> Orientation \<Rightarrow> complex \<Rightarrow> matrix \<Rightarrow> matrix \<Rightarrow> matrix \<Rightarrow> matrix
     \<Rightarrow> complex \<Rightarrow> matrix \<Rightarrow> matrix" where
  \<comment> \<open>Modelled from the spec: \<^verbatim>\<open>Trr2kNNTT\<close> is absent from the sources; it is the variant
      \<open>E := alpha (A B + C^{T/H} D^{T/H}) + beta E\<close> on the triangle \<open>uplo\<close> of \<open>E\<close>.\<close>
  "Trr2kNNTT_spec uplo orientationOfC orientationOfD alpha A B C D beta E =
     E\<lparr>entry := (\<lambda>i j.
         if in_triangle uplo i j
         then alpha * (product_entry A B i j
                       + product_entry (orient orientationOfC C) (orient orientationOfD D) i j)
              + beta * entry E i j
         else entry E i j)\<rparr>"

definition Trr2kTTNN_spec ::
  "UpperOrLower \<Rightarrow> Orientation \<Rightarrow> Orientation \<Rightarrow> complex \<Rightarrow> matrix \<Rightarrow> matrix \<Rightarrow> matrix \<Rightarrow> matrix
     \<Rightarrow> complex \<Rightarrow> matrix \<Rightarrow> matrix" where
  \<comment> \<open>The contract in the header comment of \<^verbatim>\<open>Trr2kTTNN\<close>:
      \<open>E := alpha (A^{T/H} B^{T/H} + C D) + beta E\<close>, on the triangle \<open>uplo\<close> of \<open>E\<close>.\<close>
  "Trr2kTTNN_spec uplo orientationOfA orientationOfB alpha A B C D beta E =
     E\<lparr>entry := (\<lambda>i j.
         if in_triangle uplo i j
         then alpha * (product_entry (orient orientationOfA A) (orient orientationOfB B) i j
                       + product_entry C D i j)
              + beta * entry E i j
         else entry E i j)\<rparr>"

text \<open>
  \<^verbatim>\<open>PartialRowSumScatterFrom\<close> and \<^verbatim>\<open>PartialColSumScatterFrom\<close> first call
  \<^verbatim>\<open>AlignAndResize\<close> and \<^verbatim>\<open>Zeros\<close>, neither of which is among the sources; both are
  parameters, acting on the object.
\<close>

definition PartialRowSumScatterFrom ::
  "(int \<Rightarrow> int \<Rightarrow> int \<Rightarrow> int \<Rightarrow> bool \<Rightarrow> bool \<Rightarrow> ('a, 'g) DistMatrix \<Rightarrow> ('a, 'g) DistMatrix)
     \<Rightarrow> (int \<Rightarrow> int \<Rightarrow> ('a, 'g) DistMatrix \<Rightarrow> ('a, 'g) DistMatrix)
     \<Rightarrow> (int \<Rightarrow> int) \<Rightarrow> ('a::comm_ring_1, 'g) DistMatrix \<Rightarrow> ('a, 'g) DistMatrix
     \<Rightarrow> (('a, 'g) DistMatrix, 'a) outcome" where
  "PartialRowSumScatterFrom AlignAndResize Zeros Pad A M =
     (let M = AlignAndResize (ColAlign A) (RowAlign A) (Height A) (Width A) False False M;
          M = Zeros (LocalHeight M) (LocalWidth M) M
      in PartialRowSumScatterUpdate Pad 1 A M)"

definition PartialColSumScatterFrom ::
  "(int \<Rightarrow> int \<Rightarrow> int \<Rightarrow> int \<Rightarrow> bool \<Rightarrow> bool \<Rightarrow> ('a, 'g) DistMatrix \<Rightarrow> ('a, 'g) DistMatrix)
     \<Rightarrow> (int \<Rightarrow> int \<Rightarrow> ('a, 'g) DistMatrix \<Rightarrow> ('a, 'g) DistMatrix)
     \<Rightarrow> (int \<Rightarrow> int) \<Rightarrow> ('a::comm_ring_1, 'g) DistMatrix \<Rightarrow> ('a, 'g) DistMatrix
     \<Rightarrow> (('a, 'g) DistMatrix, 'a) outcome" where
  "PartialColSumScatterFrom AlignAndResize Zeros Pad A M =
     (let M = AlignAndResize (ColAlign A) (RowAlign A) (Height A) (Width A) False False M;
          M = Zeros (LocalHeight M) (LocalWidth M) M
      in PartialColSumScatterUpdate Pad 1 A M)"

section \<open>Reading entries\<close>

definition GetLocal :: "('a, 'g) DistMatrix \<Rightarrow> int \<Rightarrow> int \<Rightarrow> 'a" where
  \<comment> \<open>The local entry \<open>(iLoc, jLoc)\<close> of the column-major local buffer.\<close>
  "GetLocal M iLoc jLoc = Buffer M (iLoc + jLoc * LDim M)"

definition global_entry :: "('a, 'g) DistMatrix \<Rightarrow> int \<Rightarrow> int \<Rightarrow> 'a" where
  \<comment> \<open>The global entry \<open>(i, j)\<close>, read on the process that holds it: global index
      \<open>shift + iLoc * stride\<close> is local index \<open>iLoc\<close>.\<close>
  "global_entry M i j =
     GetLocal M ((i - ColShift M) sdiv ColStride M) ((j - RowShift M) sdiv RowStride M)"

record ProxyCtrl =
  ctrl_colConstrain :: bool
  ctrl_colAlign :: int
  ctrl_rootConstrain :: bool
  ctrl_root :: int

definition GetDiagonalHelper_ctrl ::
  "(('a, 'g) DistMatrix \<Rightarrow> int \<Rightarrow> int) \<Rightarrow> (('a, 'g) DistMatrix \<Rightarrow> int \<Rightarrow> int)
     \<Rightarrow> ('a, 'g) DistMatrix \<Rightarrow> int \<Rightarrow> ProxyCtrl" where
  \<comment> \<open>The control structure under which \<^verbatim>\<open>GetDiagonalHelper\<close> and \<^verbatim>\<open>SetDiagonalHelper\<close>
      request the proxy \<open>d\<close>.  \<^verbatim>\<open>DiagonalAlign\<close> and \<^verbatim>\<open>DiagonalRoot\<close> are not among the
      sources and are parameters.\<close>
  "GetDiagonalHelper_ctrl DiagonalAlign DiagonalRoot M offset =
     \<lparr>ctrl_colConstrain = True, ctrl_colAlign = DiagonalAlign M offset,
      ctrl_rootConstrain = True, ctrl_root = DiagonalRoot M offset\<rparr>"

fun result_state :: "('s, 'a) outcome \<Rightarrow> 's option" where
  "result_state (Returns s) = Some s"
| "result_state (Throws e s) = None"
| "result_state (ReduceScatter buffer recvSize comm resume) = None"

section \<open>Concrete processes\<close>

text \<open>
  The local objects of two instantiations, on a grid given by its shape \<open>(r, c)\<close>: the
  \<^verbatim>\<open>[MC,MR]\<close> matrix held by the process at grid coordinate \<open>(k, l)\<close>, whose strides are the
  grid height and width, and a \<^verbatim>\<open>[STAR,STAR]\<close> replica, which every process holds in full.
\<close>

definition MC_MR_local ::
  "int \<times> int \<Rightarrow> int \<Rightarrow> int \<Rightarrow> int \<Rightarrow> int \<Rightarrow> int \<Rightarrow> int \<Rightarrow> (int \<Rightarrow> 'a) \<Rightarrow> ('a, int \<times> int) DistMatrix" where
  "MC_MR_local g height width cAlign rAlign k l buf =
     \<lparr>Height = height, Width = width, ColAlign = cAlign, RowAlign = rAlign,
      ColConstrained = False, RowConstrained = False, Root = 0, Grid = g,
      ColStrideOn = fst, RowStrideOn = snd,
      ColShift = Shift k cAlign (fst g), RowShift = Shift l rAlign (snd g),
      LocalHeight = Length height (Shift k cAlign (fst g)) (fst g),
      LocalWidth = Length width (Shift l rAlign (snd g)) (snd g),
      LDim = max 1 (Length height (Shift k cAlign (fst g)) (fst g)),
      Buffer = buf, auxMemory = (\<lambda>t. undefined), Participating = True,
      PartialRowStride = snd g, PartialUnionRowStride = 1, PartialRowRank = l,
      PartialColStride = fst g, PartialUnionColStride = 1, PartialColRank = k\<rparr>"

definition STAR_STAR_local ::
  "int \<times> int \<Rightarrow> int \<Rightarrow> int \<Rightarrow> (int \<Rightarrow> 'a) \<Rightarrow> ('a, int \<times> int) DistMatrix" where
  "STAR_STAR_local g height width buf =
     \<lparr>Height = height, Width = width, ColAlign = 0, RowAlign = 0,
      ColConstrained = False, RowConstrained = False, Root = 0, Grid = g,
      ColStrideOn = (\<lambda>g. 1), RowStrideOn = (\<lambda>g. 1),
      ColShift = 0, RowShift = 0,
      LocalHeight = height, LocalWidth = width,
      LDim = max 1 height,
      Buffer = buf, auxMemory = (\<lambda>t. undefined), Participating = True,
      PartialRowStride = 1, PartialUnionRowStride = 1, PartialRowRank = 0,
      PartialColStride = 1, PartialUnionColStride = 1, PartialColRank = 0\<rparr>"

definition row_1_10_100 :: "int \<Rightarrow> int" where
  \<comment> \<open>The buffer of the \<open>1 \<times> 3\<close> matrix \<open>(1, 10, 100)\<close>.\<close>
  "row_1_10_100 t = (if t = 0 then 1 else if t = 1 then 10 else if t = 2 then 100 else 0)"

definition Pad_one :: "int \<Rightarrow> int" where
  \<comment> \<open>An instance of the padding parameter: a count is padded up to at least one element.\<close>
  "Pad_one count = max count 1"

definition CIRC_CIRC_data :: "int \<times> int \<Rightarrow> int \<Rightarrow> (int \<times> int) DistData" where
  \<comment> \<open>The descriptor of a \<^verbatim>\<open>[CIRC,CIRC]\<close> matrix held by the given root.\<close>
  "CIRC_CIRC_data g r =
     \<lparr>colDist = CIRC, rowDist = CIRC, colAlign = 0, rowAlign = 0, root = r, grid = g\<rparr>"

definition MC_MR_data :: "int \<times> int \<Rightarrow> int \<Rightarrow> int \<Rightarrow> (int \<times> int) DistData" where
  \<comment> \<open>The descriptor of an \<^verbatim>\<open>[MC,MR]\<close> matrix with the given alignments.\<close>
  "MC_MR_data g cAlign rAlign =
     \<lparr>colDist = MC, rowDist = MR, colAlign = cAlign, rowAlign = rAlign, root = 0, grid = g\<rparr>"

definition MD_STAR_local ::
  "int \<times> int \<Rightarrow> int \<Rightarrow> int \<Rightarrow> (int \<Rightarrow> 'a) \<Rightarrow> ('a, int \<times> int) DistMatrix" where
  \<comment> \<open>The local object of a diagonal-distributed column vector of the given height, on a
      process of the diagonal path with the given shift; its stride is \<open>lcm r c\<close>.\<close>
  "MD_STAR_local g height diagShift buf =
     \<lparr>Height = height, Width = 1, ColAlign = 0, RowAlign = 0,
      ColConstrained = True, RowConstrained = False, Root = 0, Grid = g,
      ColStrideOn = (\<lambda>g. lcm (fst g) (snd g)), RowStrideOn = (\<lambda>g. 1),
      ColShift = diagShift, RowShift = 0,
      LocalHeight = Length height diagShift (lcm (fst g) (snd g)), LocalWidth = 1,
      LDim = max 1 (Length height diagShift (lcm (fst g) (snd g))),
      Buffer = buf, auxMemory = (\<lambda>t. undefined), Participating = True,
      PartialRowStride = 1, PartialUnionRowStride = 1, PartialRowRank = 0,
      PartialColStride = 1, PartialUnionColStride = 1, PartialColRank = 0\<rparr>"

definition zero_buffer :: "int \<Rightarrow> int" where
  "zero_buffer t = 0"

definition ramp_buffer :: "int \<Rightarrow> int" where
  \<comment> \<open>A buffer whose entry at offset \<open>t\<close> is \<open>10 + t\<close>.\<close>
  "ramp_buffer t = 10 + t"

definition SumScatter_scenario :: "int \<Rightarrow> ((int, int \<times> int) DistMatrix, int) outcome" where
  \<comment> \<open>A \<open>1 \<times> 2\<close> grid; rank \<open>q\<close> of the communicator is the process \<open>(0, q)\<close>.  Every process
      holds the replica \<open>(1, 10, 100)\<close> of a \<open>1 \<times> 3\<close> matrix and calls
      \<^verbatim>\<open>SumScatterUpdate(1, A)\<close> on a zero \<^verbatim>\<open>[MC,MR]\<close> matrix with alignments 0.\<close>
  "SumScatter_scenario q =
     SumScatterUpdate Pad_one 1 (STAR_STAR_local (1, 2) 1 3 row_1_10_100)
       (MC_MR_local (1, 2) 1 3 0 0 0 q zero_buffer)"

section \<open>Lengths partition an axis\<close>

lemma div_less_iff_int:
  assumes s: "0 < (s::int)"
  shows "a div s < k \<longleftrightarrow> a < k * s"
proof -
  have "(a + (- k) * s) div s = - k + a div s"
    using s by (subst div_mult_self1) auto
  then have "a div s < k \<longleftrightarrow> (a + (- k) * s) div s < 0" by linarith
  also have "\<dots> \<longleftrightarrow> a + (- k) * s < 0" using s by (rule pos_imp_zdiv_neg_iff)
  also have "\<dots> \<longleftrightarrow> a < k * s" by simp
  finally show ?thesis .
qed

lemma Length_iff:
  assumes s: "0 < s" and k: "0 \<le> iLoc"
  shows "iLoc < Length n shift s \<longleftrightarrow> shift + iLoc * s < n"
proof -
  have "iLoc < Length n shift s \<longleftrightarrow> iLoc < - ((- (n - shift)) div s)"
    unfolding Length_def ceil_quot_def using k by linarith
  also have "\<dots> \<longleftrightarrow> (- (n - shift)) div s < - iLoc" by linarith
  also have "\<dots> \<longleftrightarrow> - (n - shift) < (- iLoc) * s" using s by (rule div_less_iff_int)
  also have "\<dots> \<longleftrightarrow> shift + iLoc * s < n" by (simp add: algebra_simps)
  finally show ?thesis .
qed

lemma Length_nonneg: "0 \<le> Length n shift s"
  by (simp add: Length_def)

lemma Length_closed:
  assumes s: "0 < s"
  shows "Length n shift s = (if shift < n then (n - shift - 1) div s + 1 else 0)"
proof (cases "shift < n")
  case False
  have "\<not> 0 < Length n shift s" using Length_iff[OF s, of 0 n shift] False by simp
  then show ?thesis using False Length_nonneg[of n shift s] by simp
next
  case True
  define L where "L = Length n shift s"
  have pos: "0 < L" unfolding L_def using Length_iff[OF s, of 0 n shift] True by simp
  have lo: "shift + (L - 1) * s < n"
    using Length_iff[OF s, of "L - 1" n shift] pos by (simp add: L_def)
  have hi: "n \<le> shift + L * s"
    using Length_iff[OF s, of L n shift] pos by (simp add: L_def)
  have e: "n - shift - 1 = s * (L - 1) + (n - shift - 1 - (L - 1) * s)"
    by (simp add: algebra_simps)
  have "(n - shift - 1) div s = L - 1"
  proof (rule int_div_pos_eq[OF e])
    show "0 \<le> n - shift - 1 - (L - 1) * s" using lo by linarith
    show "n - shift - 1 - (L - 1) * s < s" using hi by (simp add: algebra_simps)
  qed
  then show ?thesis using True by (simp add: L_def)
qed

lemma mod_eq_shift_iff:
  assumes "0 \<le> shift" "shift < (s::int)"
  shows "n mod s = shift \<longleftrightarrow> s dvd (n - shift)"
proof
  assume "n mod s = shift"
  then show "s dvd (n - shift)" by (metis dvd_minus_mod)
next
  assume "s dvd (n - shift)"
  then have "n mod s = shift mod s" by (simp add: mod_eq_dvd_iff)
  then show "n mod s = shift" using assms by simp
qed

lemma succ_div_int:
  assumes s: "0 < (s::int)"
  shows "(a + 1) div s = a div s + (if s dvd (a + 1) then 1 else 0)"
proof -
  have r: "0 \<le> a mod s" "a mod s < s" using s by simp_all
  show ?thesis
  proof (cases "a mod s + 1 = s")
    case True
    have e: "a + 1 = s * (a div s + 1) + 0"
    proof -
      have "a + 1 = s * (a div s) + (a mod s + 1)" by simp
      also have "\<dots> = s * (a div s) + s" using True by simp
      finally show ?thesis by (simp add: algebra_simps)
    qed
    have "(a + 1) div s = a div s + 1" using s by (intro int_div_pos_eq[OF e]) auto
    moreover have "s dvd (a + 1)" using e by (metis add.right_neutral dvd_triv_left)
    ultimately show ?thesis by simp
  next
    case False
    then have lt: "a mod s + 1 < s" using r by linarith
    have e: "a + 1 = s * (a div s) + (a mod s + 1)" by simp
    have "(a + 1) div s = a div s" using r lt by (intro int_div_pos_eq[OF e]) auto
    moreover have "(a + 1) mod s = a mod s + 1" using r lt by (intro int_mod_pos_eq[OF e]) auto
    then have "\<not> s dvd (a + 1)" using r by (simp add: dvd_eq_mod_eq_0)
    ultimately show ?thesis by simp
  qed
qed

lemma Length_step:
  assumes n: "0 \<le> n" and sh: "0 \<le> shift" "shift < s"
  shows "Length (n + 1) shift s = Length n shift s + (if n mod s = shift then 1 else 0)"
proof -
  have s: "0 < s" using sh by linarith
  consider "n < shift" | "n = shift" | "shift < n" by linarith
  then show ?thesis
  proof cases
    case 1
    then have "n mod s \<noteq> shift" using n sh by simp
    then show ?thesis using 1 by (simp add: Length_closed[OF s])
  next
    case 2
    then have "n mod s = shift" using sh by simp
    then show ?thesis using 2 s by (simp add: Length_closed[OF s])
  next
    case 3
    define a where "a = n - shift - 1"
    have a: "n - shift = a + 1" "n + 1 - shift - 1 = a + 1" by (simp_all add: a_def)
    have "(a + 1) div s = a div s + (if s dvd (a + 1) then 1 else 0)"
      using s by (rule succ_div_int)
    then show ?thesis using 3 mod_eq_shift_iff[OF sh, of n]
      by (simp add: Length_closed[OF s] a a_def[symmetric])
  qed
qed

lemma Length_sum_set:
  assumes s: "0 < s"
  shows "(\<Sum>shift \<in> {0..s - 1}. Length (int n) shift s) = int n"
proof (induction n)
  case 0
  have "(\<Sum>shift \<in> {0..s - 1}. Length (int 0) shift s) = (\<Sum>shift \<in> {0..s - 1}. 0)"
    by (rule sum.cong) (simp_all add: Length_closed[OF s])
  then show ?case by simp
next
  case (Suc n)
  have "(\<Sum>shift \<in> {0..s - 1}. Length (int (Suc n)) shift s)
      = (\<Sum>shift \<in> {0..s - 1}. Length (int n) shift s + (if int n mod s = shift then 1 else 0))"
  proof (rule sum.cong)
    fix shift assume "shift \<in> {0..s - 1}"
    then have sh: "0 \<le> shift" "shift < s" by simp_all
    have "int (Suc n) = int n + 1" by simp
    then show "Length (int (Suc n)) shift s = Length (int n) shift s + (if int n mod s = shift then 1 else 0)"
      using Length_step[OF _ sh, of "int n"] by (simp only: of_nat_0_le_iff)
  qed simp
  also have "\<dots> = (\<Sum>shift \<in> {0..s - 1}. Length (int n) shift s)
                 + (\<Sum>shift \<in> {0..s - 1}. if int n mod s = shift then 1 else 0)"
    by (rule sum.distrib)
  also have "(\<Sum>shift \<in> {0..s - 1}. if int n mod s = shift then 1 else 0) = (1::int)"
  proof -
    have "int n mod s \<in> {0..s - 1}" using s by simp
    then show ?thesis by (simp add: sum.delta')
  qed
  finally show ?case using Suc.IH by simp
qed

lemma owner_shift_unique:
  assumes s: "0 < s" and i: "0 \<le> i" "i < n"
  shows "\<exists>!shift. 0 \<le> shift \<and> shift < s \<and>
           (\<exists>iLoc. 0 \<le> iLoc \<and> iLoc < Length n shift s \<and> i = shift + iLoc * s)"
proof (rule ex1I[of _ "i mod s"])
  have "0 \<le> i div s" using s i by (simp add: pos_imp_zdiv_nonneg_iff)
  moreover have "i div s < Length n (i mod s) s"
    using Length_iff[OF s \<open>0 \<le> i div s\<close>, of n "i mod s"] i by simp
  moreover have "i = i mod s + i div s * s" by simp
  ultimately have "\<exists>iLoc. 0 \<le> iLoc \<and> iLoc < Length n (i mod s) s \<and> i = i mod s + iLoc * s"
    by blast
  moreover have "0 \<le> i mod s" "i mod s < s" using s by simp_all
  ultimately show "0 \<le> i mod s \<and> i mod s < s \<and>
     (\<exists>iLoc. 0 \<le> iLoc \<and> iLoc < Length n (i mod s) s \<and> i = i mod s + iLoc * s)"
    by blast
next
  fix shift
  assume "0 \<le> shift \<and> shift < s \<and>
           (\<exists>iLoc. 0 \<le> iLoc \<and> iLoc < Length n shift s \<and> i = shift + iLoc * s)"
  then obtain iLoc where sh: "0 \<le> shift" "shift < s" and e: "i = shift + iLoc * s" by blast
  have "i mod s = shift mod s" unfolding e by simp
  then show "shift = i mod s" using sh by simp
qed

text \<open>
  Claim C2.  For every global extent \<open>n \<ge> 0\<close> and stride \<open>s \<ge> 1\<close> the local lengths
  \<open>Length n shift s\<close> of the shifts \<open>0, \<dots>, s - 1\<close> add up to exactly \<open>n\<close>, and every
  global index below \<open>n\<close> is held by exactly one shift.
\<close>

theorem Length_partition:
  assumes "0 \<le> n" and "1 \<le> s"
  shows "(\<Sum>shift \<leftarrow> [0..s - 1]. Length n shift s) = n \<and>
         (\<forall>i. 0 \<le> i \<and> i < n \<longrightarrow>
            (\<exists>!shift. 0 \<le> shift \<and> shift < s \<and>
               (\<exists>iLoc. 0 \<le> iLoc \<and> iLoc < Length n shift s \<and> i = shift + iLoc * s)))"
proof -
  have s: "0 < s" using assms by linarith
  have "(\<Sum>shift \<leftarrow> [0..s - 1]. Length n shift s) = (\<Sum>shift \<in> {0..s - 1}. Length n shift s)"
    by (simp add: interv_sum_list_conv_sum_set_int)
  also have "\<dots> = n" using Length_sum_set[OF s, of "nat n"] assms by simp
  finally have total: "(\<Sum>shift \<leftarrow> [0..s - 1]. Length n shift s) = n" .
  have once: "\<forall>i. 0 \<le> i \<and> i < n \<longrightarrow>
            (\<exists>!shift. 0 \<le> shift \<and> shift < s \<and>
               (\<exists>iLoc. 0 \<le> iLoc \<and> iLoc < Length n shift s \<and> i = shift + iLoc * s))"
  proof (intro allI impI)
    fix i assume "0 \<le> i \<and> i < n"
    then have "0 \<le> i" "i < n" by simp_all
    then show "\<exists>!shift. 0 \<le> shift \<and> shift < s \<and>
               (\<exists>iLoc. 0 \<le> iLoc \<and> iLoc < Length n shift s \<and> i = shift + iLoc * s)"
      by (rule owner_shift_unique[OF s])
  qed
  show ?thesis by (intro conjI total once)
qed

theorem Length_partition_witness:
  "(0::int) \<le> 7 \<and> (1::int) \<le> 3 \<and> (\<Sum>shift \<leftarrow> [0..3 - 1]. Length 7 shift 3) = 7 \<and>
   (0::int) \<le> 4 \<and> (4::int) < 7 \<and>
   (\<exists>!shift. 0 \<le> shift \<and> shift < 3 \<and>
       (\<exists>iLoc. 0 \<le> iLoc \<and> iLoc < Length 7 shift 3 \<and> 4 = shift + iLoc * 3))"
proof -
  have h: "(0::int) \<le> 7" "(1::int) \<le> 3" by simp_all
  note p = Length_partition[OF h]
  have i: "(0::int) \<le> 4 \<and> (4::int) < 7" by simp
  note p1 = p[THEN conjunct1]
  note p2 = p[THEN conjunct2, rule_format, OF i]
  show ?thesis
    by (intro conjI h p1 p2 i[THEN conjunct1] i[THEN conjunct2])
qed

section \<open>Every entry has exactly one owner\<close>

lemma Shift_range:
  assumes "0 < stride"
  shows "0 \<le> Shift rank align stride" "Shift rank align stride < stride"
  using assms by (simp_all add: Shift_def)

lemma owns_index_iff:
  assumes s: "0 < stride" and i: "0 \<le> i"
  shows "owns_index n rank align stride i \<longleftrightarrow> i < n \<and> i mod stride = Shift rank align stride"
proof -
  define shift where "shift = Shift rank align stride"
  have sh: "0 \<le> shift" "shift < stride" unfolding shift_def using Shift_range[OF s] by simp_all
  have "owns_index n rank align stride i \<longleftrightarrow>
        (\<exists>iLoc. 0 \<le> iLoc \<and> iLoc < Length n shift stride \<and> i = shift + iLoc * stride)"
    unfolding owns_index_def shift_def[symmetric] Let_def by (auto simp: image_iff)
  also have "\<dots> \<longleftrightarrow> i < n \<and> i mod stride = shift"
  proof
    assume "\<exists>iLoc. 0 \<le> iLoc \<and> iLoc < Length n shift stride \<and> i = shift + iLoc * stride"
    then obtain iLoc where k: "0 \<le> iLoc" "iLoc < Length n shift stride" and e: "i = shift + iLoc * stride"
      by blast
    have "i < n" using Length_iff[OF s k(1), of n shift] k(2) e by simp
    moreover have "i mod stride = shift" unfolding e using sh by simp
    ultimately show "i < n \<and> i mod stride = shift" by simp
  next
    assume a: "i < n \<and> i mod stride = shift"
    have q: "0 \<le> i div stride" using s i by (simp add: pos_imp_zdiv_nonneg_iff)
    have e: "i = shift + (i div stride) * stride" using a by (metis add.commute mod_div_mult_eq)
    have "i div stride < Length n shift stride"
      using Length_iff[OF s q, of n shift] a e by simp
    then show "\<exists>iLoc. 0 \<le> iLoc \<and> iLoc < Length n shift stride \<and> i = shift + iLoc * stride"
      using q e by blast
  qed
  finally show ?thesis unfolding shift_def .
qed

lemma Shift_owner:
  assumes s: "0 < stride" and k: "0 \<le> k" "k < stride"
  shows "i mod stride = Shift k align stride \<longleftrightarrow> k = (i + align) mod stride"
proof -
  have "Shift k align stride = (k - align) mod stride" by (simp add: Shift_def)
  then have "i mod stride = Shift k align stride \<longleftrightarrow> i mod stride = (k - align) mod stride" by simp
  also have "\<dots> \<longleftrightarrow> stride dvd (i - (k - align))" by (simp add: mod_eq_dvd_iff)
  also have "\<dots> \<longleftrightarrow> stride dvd ((i + align) - k)" by (simp add: algebra_simps)
  also have "\<dots> \<longleftrightarrow> (i + align) mod stride = k mod stride" by (simp add: mod_eq_dvd_iff)
  also have "\<dots> \<longleftrightarrow> k = (i + align) mod stride" using k by auto
  finally show ?thesis .
qed

lemma owns_index_owner:
  assumes s: "0 < stride" and i: "0 \<le> i" "i < n" and k: "0 \<le> k" "k < stride"
  shows "owns_index n k align stride i \<longleftrightarrow> k = (i + align) mod stride"
  using owns_index_iff[OF s i(1), of n k align] i(2) Shift_owner[OF s k, of i align] by simp

text \<open>
  Claim C3, which names the process \<open>((i - colAlign) mod r, (j - rowAlign) mod c)\<close> as the
  owner, fails: with \<open>Shift(rank, align, stride) = (rank - align + stride) mod stride\<close>, on a
  \<open>3 \<times> 1\<close> grid with column alignment 1 the process row \<open>(0 - 1) mod 3 = 2\<close> does not hold
  row 0 of a \<open>1 \<times> 1\<close> matrix.
\<close>

theorem owner_formula_counterexample:
  "\<not> owns 1 1 3 1 1 0 ((0 - 1) mod 3) ((0 - 0) mod 1) 0 0"
  by (simp add: owns_def owns_index_def Shift_def Length_def ceil_quot_def)

text \<open>
  Claim C3, amended.  For every grid shape \<open>r \<times> c\<close>, every alignment pair in
  \<open>[0,r) \<times> [0,c)\<close> and every entry \<open>(i, j)\<close> of the matrix, exactly one process owns
  \<open>(i, j)\<close>: the process at grid coordinate \<open>((i + colAlign) mod r, (j + rowAlign) mod c)\<close>.
\<close>

theorem unique_owner:
  assumes "1 \<le> r" and "1 \<le> c"
    and "0 \<le> cAlign \<and> cAlign < r" and "0 \<le> rAlign \<and> rAlign < c"
    and "0 \<le> i \<and> i < height" and "0 \<le> j \<and> j < width"
  shows "0 \<le> (i + cAlign) mod r \<and> (i + cAlign) mod r < r \<and>
         0 \<le> (j + rAlign) mod c \<and> (j + rAlign) mod c < c \<and>
         owns height width r c cAlign rAlign ((i + cAlign) mod r) ((j + rAlign) mod c) i j \<and>
         (\<forall>k l. 0 \<le> k \<and> k < r \<and> 0 \<le> l \<and> l < c \<and> owns height width r c cAlign rAlign k l i j
            \<longrightarrow> k = (i + cAlign) mod r \<and> l = (j + rAlign) mod c)"
proof -
  have r: "0 < r" and c: "0 < c" using assms by linarith+
  have i: "0 \<le> i" "i < height" and j: "0 \<le> j" "j < width" using assms by simp_all
  have rng: "0 \<le> (i + cAlign) mod r" "(i + cAlign) mod r < r"
            "0 \<le> (j + rAlign) mod c" "(j + rAlign) mod c < c"
    using r c by simp_all
  have own: "owns height width r c cAlign rAlign ((i + cAlign) mod r) ((j + rAlign) mod c) i j"
    unfolding owns_def
    using owns_index_owner[OF r i rng(1,2), of cAlign] owns_index_owner[OF c j rng(3,4), of rAlign]
    by simp
  have uniq: "\<forall>k l. 0 \<le> k \<and> k < r \<and> 0 \<le> l \<and> l < c \<and> owns height width r c cAlign rAlign k l i j
            \<longrightarrow> k = (i + cAlign) mod r \<and> l = (j + rAlign) mod c"
  proof (intro allI impI)
    fix k l
    assume h: "0 \<le> k \<and> k < r \<and> 0 \<le> l \<and> l < c \<and> owns height width r c cAlign rAlign k l i j"
    then have k: "0 \<le> k" "k < r" and l: "0 \<le> l" "l < c"
      and o: "owns_index height k cAlign r i" "owns_index width l rAlign c j"
      by (simp_all add: owns_def)
    show "k = (i + cAlign) mod r \<and> l = (j + rAlign) mod c"
      using owns_index_owner[OF r i k, of cAlign] owns_index_owner[OF c j l, of rAlign] o by simp
  qed
  show ?thesis by (intro conjI rng own uniq)
qed

theorem unique_owner_witness:
  "(1::int) \<le> 2 \<and> (1::int) \<le> 3 \<and> (0::int) \<le> 1 \<and> (1::int) < 2 \<and> (0::int) \<le> 2 \<and> (2::int) < 3 \<and>
   (0::int) \<le> 4 \<and> (4::int) < 5 \<and> (0::int) \<le> 3 \<and> (3::int) < 5 \<and>
   owns 5 5 2 3 1 2 ((4 + 1) mod 2) ((3 + 2) mod 3) 4 3 \<and>
   owns 5 5 2 3 1 2 1 2 4 3 \<and> (1::int) = (4 + 1) mod 2 \<and> (2::int) = (3 + 2) mod 3"
proof -
  have h: "(1::int) \<le> 2" "(1::int) \<le> 3" "(0::int) \<le> 1 \<and> (1::int) < 2" "(0::int) \<le> 2 \<and> (2::int) < 3"
          "(0::int) \<le> 4 \<and> (4::int) < 5" "(0::int) \<le> 3 \<and> (3::int) < 5"
    by simp_all
  note u = unique_owner[OF h]
  have own: "owns 5 5 2 3 1 2 ((4 + 1) mod 2) ((3 + 2) mod 3) 4 3"
    using u by (elim conjE)
  have e: "(1::int) = (4 + 1) mod 2" "(2::int) = (3 + 2) mod 3" by simp_all
  have own': "owns 5 5 2 3 1 2 1 2 4 3" using own by simp
  show ?thesis using h own own' e by simp
qed

section \<open>Processes outside the distribution\<close>

text \<open>
  Claim C9.  On a process whose \<^verbatim>\<open>Participating()\<close> is false, \<^verbatim>\<open>SumScatterUpdate\<close>,
  \<^verbatim>\<open>PartialRowSumScatterUpdate\<close> and \<^verbatim>\<open>PartialColSumScatterUpdate\<close> return at once: the
  object, with its local buffer and all metadata, is unchanged, and the process enters no
  collective.
\<close>

theorem not_participating_returns:
  assumes "\<not> Participating M"
  shows "SumScatterUpdate Pad alpha A M = Returns M \<and>
         PartialRowSumScatterUpdate Pad alpha A M = Returns M \<and>
         PartialColSumScatterUpdate Pad alpha A M = Returns M"
  using assms
  by (simp add: SumScatterUpdate_def PartialRowSumScatterUpdate_def PartialColSumScatterUpdate_def)

theorem not_participating_returns_witness:
  "\<not> Participating ((MC_MR_local (1, 2) 1 3 0 0 0 0 row_1_10_100)\<lparr>Participating := False\<rparr>) \<and>
   SumScatterUpdate Pad_one 1 (STAR_STAR_local (1, 2) 1 3 row_1_10_100)
       ((MC_MR_local (1, 2) 1 3 0 0 0 0 row_1_10_100)\<lparr>Participating := False\<rparr>)
     = Returns ((MC_MR_local (1, 2) 1 3 0 0 0 0 row_1_10_100)\<lparr>Participating := False\<rparr>)"
proof -
  have h: "\<not> Participating ((MC_MR_local (1, 2) 1 3 0 0 0 0 row_1_10_100)\<lparr>Participating := False\<rparr>)"
    by simp
  show ?thesis
    using h not_participating_returns[OF h, of Pad_one 1 "STAR_STAR_local (1, 2) 1 3 row_1_10_100"]
    by (intro conjI) (elim conjE, assumption)+
qed

section \<open>The unaligned partial reduce-scatter\<close>

text \<open>
  Claim C4, which has every call with mismatched alignments rejected, fails on a process
  that does not participate: the call returns normally, whatever the alignments.
\<close>

theorem unaligned_not_rejected_counterexample:
  "RowAlign ((MC_MR_local (1, 2) 1 3 0 1 0 0 row_1_10_100)\<lparr>Participating := False\<rparr>)
       smod RowStride (MC_MR_local (1, 2) 1 3 0 0 0 0 row_1_10_100)
     \<noteq> RowAlign (MC_MR_local (1, 2) 1 3 0 0 0 0 row_1_10_100) \<and>
   PartialRowSumScatterUpdate Pad_one 1 (MC_MR_local (1, 2) 1 3 0 0 0 0 row_1_10_100)
       ((MC_MR_local (1, 2) 1 3 0 1 0 0 row_1_10_100)\<lparr>Participating := False\<rparr>)
     = Returns ((MC_MR_local (1, 2) 1 3 0 1 0 0 row_1_10_100)\<lparr>Participating := False\<rparr>)"
  by (simp add: PartialRowSumScatterUpdate_def MC_MR_local_def RowStride_def
        signed_modulo_int_def signed_divide_int_def)

text \<open>
  Claim C4, amended.  On every participating process, if the destination's row alignment
  modulo the source's row stride differs from the source's row alignment,
  \<^verbatim>\<open>PartialRowSumScatterUpdate\<close> throws the logic error
  \<open>Unaligned PartialRowSumScatterUpdate not implemented\<close>, entering no collective and leaving the
  destination as it was; likewise \<^verbatim>\<open>PartialColSumScatterUpdate\<close> for columns.
\<close>

theorem unaligned_rejected:
  assumes "Participating M"
  shows "(RowAlign M smod RowStride A \<noteq> RowAlign A \<longrightarrow>
            PartialRowSumScatterUpdate Pad alpha A M =
              Throws (LogicError ''Unaligned PartialRowSumScatterUpdate not implemented'') M) \<and>
         (ColAlign M smod ColStride A \<noteq> ColAlign A \<longrightarrow>
            PartialColSumScatterUpdate Pad alpha A M =
              Throws (LogicError ''Unaligned PartialColSumScatterUpdate not implemented'') M)"
  using assms by (simp add: PartialRowSumScatterUpdate_def PartialColSumScatterUpdate_def)

theorem unaligned_rejected_witness:
  "Participating (MC_MR_local (2, 2) 4 4 1 1 0 0 row_1_10_100) \<and>
   RowAlign (MC_MR_local (2, 2) 4 4 1 1 0 0 row_1_10_100)
       smod RowStride (MC_MR_local (2, 2) 4 4 0 0 0 0 row_1_10_100)
     \<noteq> RowAlign (MC_MR_local (2, 2) 4 4 0 0 0 0 row_1_10_100) \<and>
   PartialRowSumScatterUpdate Pad_one 1 (MC_MR_local (2, 2) 4 4 0 0 0 0 row_1_10_100)
       (MC_MR_local (2, 2) 4 4 1 1 0 0 row_1_10_100)
     = Throws (LogicError ''Unaligned PartialRowSumScatterUpdate not implemented'')
         (MC_MR_local (2, 2) 4 4 1 1 0 0 row_1_10_100) \<and>
   ColAlign (MC_MR_local (2, 2) 4 4 1 1 0 0 row_1_10_100)
       smod ColStride (MC_MR_local (2, 2) 4 4 0 0 0 0 row_1_10_100)
     \<noteq> ColAlign (MC_MR_local (2, 2) 4 4 0 0 0 0 row_1_10_100) \<and>
   PartialColSumScatterUpdate Pad_one 1 (MC_MR_local (2, 2) 4 4 0 0 0 0 row_1_10_100)
       (MC_MR_local (2, 2) 4 4 1 1 0 0 row_1_10_100)
     = Throws (LogicError ''Unaligned PartialColSumScatterUpdate not implemented'')
         (MC_MR_local (2, 2) 4 4 1 1 0 0 row_1_10_100)"
proof -
  have p: "Participating (MC_MR_local (2, 2) 4 4 1 1 0 0 row_1_10_100)"
    by (simp add: MC_MR_local_def)
  have r: "RowAlign (MC_MR_local (2, 2) 4 4 1 1 0 0 row_1_10_100)
       smod RowStride (MC_MR_local (2, 2) 4 4 0 0 0 0 row_1_10_100)
     \<noteq> RowAlign (MC_MR_local (2, 2) 4 4 0 0 0 0 row_1_10_100)"
    by (simp add: MC_MR_local_def RowStride_def signed_modulo_int_def signed_divide_int_def)
  have c: "ColAlign (MC_MR_local (2, 2) 4 4 1 1 0 0 row_1_10_100)
       smod ColStride (MC_MR_local (2, 2) 4 4 0 0 0 0 row_1_10_100)
     \<noteq> ColAlign (MC_MR_local (2, 2) 4 4 0 0 0 0 row_1_10_100)"
    by (simp add: MC_MR_local_def ColStride_def signed_modulo_int_def signed_divide_int_def)
  note u = unaligned_rejected[OF p, of "MC_MR_local (2, 2) 4 4 0 0 0 0 row_1_10_100" Pad_one 1]
  show ?thesis
    using p r c u[THEN conjunct1, rule_format, OF r] u[THEN conjunct2, rule_format, OF c]
    by (intro conjI)
qed

section \<open>Aligning with a descriptor\<close>

lemma ColAlign_AlignCols: "ColAlign (AlignCols a constrain M) = a"
  by (simp add: AlignCols_def)

lemma RowAlign_AlignRows: "RowAlign (AlignRows a constrain M) = a"
  by (simp add: AlignRows_def)

lemma align_setters_keep:
  "ColAlign (SetRoot r (SetGrid g M)) = ColAlign M"
  "RowAlign (SetRoot r (SetGrid g M)) = RowAlign M"
  "ColConstrained (SetRoot r (SetGrid g M)) = ColConstrained M"
  "RowConstrained (SetRoot r (SetGrid g M)) = RowConstrained M"
  by (simp_all add: SetRoot_def SetGrid_def)

lemma AlignColsWith_col_match:
  assumes "colDist data = U \<or> colDist data = UPart"
  shows "AlignColsWith U UPart UScat UGath data constrain allowMismatch M =
           Returns (AlignCols (colAlign data) constrain (SetRoot (root data) (SetGrid (grid data) M)))"
  using assms unfolding AlignColsWith_def Let_def by simp

lemma AlignColsWith_row_match:
  assumes "\<not> (colDist data = U \<or> colDist data = UPart)" "rowDist data = U \<or> rowDist data = UPart"
  shows "AlignColsWith U UPart UScat UGath data constrain allowMismatch M =
           Returns (AlignCols (rowAlign data) constrain (SetRoot (root data) (SetGrid (grid data) M)))"
  using assms unfolding AlignColsWith_def Let_def by simp

lemma AlignColsWith_col_scat:
  assumes "\<not> (colDist data = U \<or> colDist data = UPart)" "\<not> (rowDist data = U \<or> rowDist data = UPart)"
    "colDist data = UScat"
  shows "AlignColsWith U UPart UScat UGath data constrain allowMismatch M =
           Returns (AlignCols (colAlign data smod ColStride (SetRoot (root data) (SetGrid (grid data) M)))
                      constrain (SetRoot (root data) (SetGrid (grid data) M)))"
  using assms unfolding AlignColsWith_def Let_def by simp

lemma AlignColsWith_row_scat:
  assumes "\<not> (colDist data = U \<or> colDist data = UPart)" "\<not> (rowDist data = U \<or> rowDist data = UPart)"
    "colDist data \<noteq> UScat" "rowDist data = UScat"
  shows "AlignColsWith U UPart UScat UGath data constrain allowMismatch M =
           Returns (AlignCols (rowAlign data smod ColStride (SetRoot (root data) (SetGrid (grid data) M)))
                      constrain (SetRoot (root data) (SetGrid (grid data) M)))"
  using assms unfolding AlignColsWith_def Let_def by simp

lemma AlignColsWith_none:
  assumes "\<not> (colDist data = U \<or> colDist data = UPart)" "\<not> (rowDist data = U \<or> rowDist data = UPart)"
    "colDist data \<noteq> UScat" "rowDist data \<noteq> UScat"
  shows "AlignColsWith U UPart UScat UGath data constrain allowMismatch M =
           (if U \<noteq> UGath \<and> colDist data \<noteq> UGath \<and> rowDist data \<noteq> UGath \<and> \<not> allowMismatch
            then Throws (LogicError ''Nonsensical alignment'') (SetRoot (root data) (SetGrid (grid data) M))
            else Returns (SetRoot (root data) (SetGrid (grid data) M)))"
  using assms unfolding AlignColsWith_def Let_def by simp

lemma AlignColsWith_Throws:
  assumes "AlignColsWith U UPart UScat UGath data constrain allowMismatch M = Throws e M'"
  shows "M' = SetRoot (root data) (SetGrid (grid data) M) \<and> e = LogicError ''Nonsensical alignment''"
  using assms unfolding AlignColsWith_def Let_def by (simp split: if_splits)

lemma AlignRowsWith_col_match:
  assumes "colDist data = V \<or> colDist data = VPart"
  shows "AlignRowsWith V VPart VScat VGath data constrain allowMismatch M =
           Returns (AlignRows (colAlign data) constrain (SetRoot (root data) (SetGrid (grid data) M)))"
  using assms unfolding AlignRowsWith_def Let_def by simp

lemma AlignRowsWith_row_match:
  assumes "\<not> (colDist data = V \<or> colDist data = VPart)" "rowDist data = V \<or> rowDist data = VPart"
  shows "AlignRowsWith V VPart VScat VGath data constrain allowMismatch M =
           Returns (AlignRows (rowAlign data) constrain (SetRoot (root data) (SetGrid (grid data) M)))"
  using assms unfolding AlignRowsWith_def Let_def by simp

lemma AlignRowsWith_col_scat:
  assumes "\<not> (colDist data = V \<or> colDist data = VPart)" "\<not> (rowDist data = V \<or> rowDist data = VPart)"
    "colDist data = VScat"
  shows "AlignRowsWith V VPart VScat VGath data constrain allowMismatch M =
           Returns (AlignRows (colAlign data smod RowStride (SetRoot (root data) (SetGrid (grid data) M)))
                      constrain (SetRoot (root data) (SetGrid (grid data) M)))"
  using assms unfolding AlignRowsWith_def Let_def by simp

lemma AlignRowsWith_row_scat:
  assumes "\<not> (colDist data = V \<or> colDist data = VPart)" "\<not> (rowDist data = V \<or> rowDist data = VPart)"
    "colDist data \<noteq> VScat" "rowDist data = VScat"
  shows "AlignRowsWith V VPart VScat VGath data constrain allowMismatch M =
           Returns (AlignRows (rowAlign data smod RowStride (SetRoot (root data) (SetGrid (grid data) M)))
                      constrain (SetRoot (root data) (SetGrid (grid data) M)))"
  using assms unfolding AlignRowsWith_def Let_def by simp

lemma AlignRowsWith_none:
  assumes "\<not> (colDist data = V \<or> colDist data = VPart)" "\<not> (rowDist data = V \<or> rowDist data = VPart)"
    "colDist data \<noteq> VScat" "rowDist data \<noteq> VScat"
  shows "AlignRowsWith V VPart VScat VGath data constrain allowMismatch M =
           (if V \<noteq> VGath \<and> colDist data \<noteq> VGath \<and> rowDist data \<noteq> VGath \<and> \<not> allowMismatch
            then Throws (LogicError ''Nonsensical alignment'') (SetRoot (root data) (SetGrid (grid data) M))
            else Returns (SetRoot (root data) (SetGrid (grid data) M)))"
  using assms unfolding AlignRowsWith_def Let_def by simp

lemma AlignRowsWith_Throws:
  assumes "AlignRowsWith V VPart VScat VGath data constrain allowMismatch M = Throws e M'"
  shows "M' = SetRoot (root data) (SetGrid (grid data) M) \<and> e = LogicError ''Nonsensical alignment''"
  using assms unfolding AlignRowsWith_def Let_def by (simp split: if_splits)

lemma AlignColsWith_clause1:
  assumes h: "colDist data = U \<or> colDist data = UPart"
  shows "\<exists>M'. AlignColsWith U UPart UScat UGath data constrain allowMismatch M = Returns M' \<and> ColAlign M' = colAlign data"
proof -
  have a: "colDist data = U \<or> colDist data = UPart"
    using h by blast+
  show ?thesis unfolding AlignColsWith_col_match[OF a] by (simp add: ColAlign_AlignCols RowAlign_AlignRows)
qed

lemma AlignColsWith_clause2:
  assumes h: "\<not> (colDist data = U \<or> colDist data = UPart) \<and> (rowDist data = U \<or> rowDist data = UPart)"
  shows "\<exists>M'. AlignColsWith U UPart UScat UGath data constrain allowMismatch M = Returns M' \<and> ColAlign M' = rowAlign data"
proof -
  have a: "\<not> (colDist data = U \<or> colDist data = UPart)" "rowDist data = U \<or> rowDist data = UPart"
    using h by blast+
  show ?thesis unfolding AlignColsWith_row_match[OF a] by (simp add: ColAlign_AlignCols RowAlign_AlignRows)
qed

lemma AlignColsWith_clause3:
  assumes h: "\<not> (colDist data = U \<or> colDist data = UPart) \<and> \<not> (rowDist data = U \<or> rowDist data = UPart) \<and> colDist data = UScat"
  shows "\<exists>M'. AlignColsWith U UPart UScat UGath data constrain allowMismatch M = Returns M' \<and>
            ColAlign M' = colAlign data smod ColStride (SetRoot (root data) (SetGrid (grid data) M))"
proof -
  have a: "\<not> (colDist data = U \<or> colDist data = UPart)" "\<not> (rowDist data = U \<or> rowDist data = UPart)" "colDist data = UScat"
    using h by blast+
  show ?thesis unfolding AlignColsWith_col_scat[OF a] by (simp add: ColAlign_AlignCols RowAlign_AlignRows)
qed

lemma AlignColsWith_clause4:
  assumes h: "\<not> (colDist data = U \<or> colDist data = UPart) \<and> \<not> (rowDist data = U \<or> rowDist data = UPart) \<and> colDist data \<noteq> UScat \<and> rowDist data = UScat"
  shows "\<exists>M'. AlignColsWith U UPart UScat UGath data constrain allowMismatch M = Returns M' \<and>
            ColAlign M' = rowAlign data smod ColStride (SetRoot (root data) (SetGrid (grid data) M))"
proof -
  have a: "\<not> (colDist data = U \<or> colDist data = UPart)" "\<not> (rowDist data = U \<or> rowDist data = UPart)" "colDist data \<noteq> UScat" "rowDist data = UScat"
    using h by blast+
  show ?thesis unfolding AlignColsWith_row_scat[OF a] by (simp add: ColAlign_AlignCols RowAlign_AlignRows)
qed

lemma AlignColsWith_clause5:
  assumes h: "\<not> (colDist data = U \<or> colDist data = UPart) \<and> \<not> (rowDist data = U \<or> rowDist data = UPart) \<and> colDist data \<noteq> UScat \<and> rowDist data \<noteq> UScat \<and>
    (U = UGath \<or> colDist data = UGath \<or> rowDist data = UGath \<or> allowMismatch)"
  shows "\<exists>M'. AlignColsWith U UPart UScat UGath data constrain allowMismatch M = Returns M' \<and> ColAlign M' = ColAlign M \<and> ColConstrained M' = ColConstrained M"
proof -
  have a: "\<not> (colDist data = U \<or> colDist data = UPart)" "\<not> (rowDist data = U \<or> rowDist data = UPart)" "colDist data \<noteq> UScat" "rowDist data \<noteq> UScat"
    using h by blast+
  show ?thesis unfolding AlignColsWith_none[OF a] using h by (auto simp: align_setters_keep)
qed

lemma AlignColsWith_clause6:
  assumes h: "\<not> (colDist data = U \<or> colDist data = UPart) \<and> \<not> (rowDist data = U \<or> rowDist data = UPart) \<and> colDist data \<noteq> UScat \<and> rowDist data \<noteq> UScat \<and>
    U \<noteq> UGath \<and> colDist data \<noteq> UGath \<and> rowDist data \<noteq> UGath \<and> \<not> allowMismatch"
  shows "AlignColsWith U UPart UScat UGath data constrain allowMismatch M = Throws (LogicError ''Nonsensical alignment'') (SetRoot (root data) (SetGrid (grid data) M))"
proof -
  have a: "\<not> (colDist data = U \<or> colDist data = UPart)" "\<not> (rowDist data = U \<or> rowDist data = UPart)" "colDist data \<noteq> UScat" "rowDist data \<noteq> UScat"
    using h by blast+
  show ?thesis unfolding AlignColsWith_none[OF a] using h by (auto simp: align_setters_keep)
qed

lemma AlignRowsWith_clause1:
  assumes h: "colDist data = V \<or> colDist data = VPart"
  shows "\<exists>M'. AlignRowsWith V VPart VScat VGath data constrain allowMismatch M = Returns M' \<and> RowAlign M' = colAlign data"
proof -
  have a: "colDist data = V \<or> colDist data = VPart"
    using h by blast+
  show ?thesis unfolding AlignRowsWith_col_match[OF a] by (simp add: ColAlign_AlignCols RowAlign_AlignRows)
qed

lemma AlignRowsWith_clause2:
  assumes h: "\<not> (colDist data = V \<or> colDist data = VPart) \<and> (rowDist data = V \<or> rowDist data = VPart)"
  shows "\<exists>M'. AlignRowsWith V VPart VScat VGath data constrain allowMismatch M = Returns M' \<and> RowAlign M' = rowAlign data"
proof -
  have a: "\<not> (colDist data = V \<or> colDist data = VPart)" "rowDist data = V \<or> rowDist data = VPart"
    using h by blast+
  show ?thesis unfolding AlignRowsWith_row_match[OF a] by (simp add: ColAlign_AlignCols RowAlign_AlignRows)
qed

lemma AlignRowsWith_clause3:
  assumes h: "\<not> (colDist data = V \<or> colDist data = VPart) \<and> \<not> (rowDist data = V \<or> rowDist data = VPart) \<and> colDist data = VScat"
  shows "\<exists>M'. AlignRowsWith V VPart VScat VGath data constrain allowMismatch M = Returns M' \<and>
            RowAlign M' = colAlign data smod RowStride (SetRoot (root data) (SetGrid (grid data) M))"
proof -
  have a: "\<not> (colDist data = V \<or> colDist data = VPart)" "\<not> (rowDist data = V \<or> rowDist data = VPart)" "colDist data = VScat"
    using h by blast+
  show ?thesis unfolding AlignRowsWith_col_scat[OF a] by (simp add: ColAlign_AlignCols RowAlign_AlignRows)
qed

lemma AlignRowsWith_clause4:
  assumes h: "\<not> (colDist data = V \<or> colDist data = VPart) \<and> \<not> (rowDist data = V \<or> rowDist data = VPart) \<and> colDist data \<noteq> VScat \<and> rowDist data = VScat"
  shows "\<exists>M'. AlignRowsWith V VPart VScat VGath data constrain allowMismatch M = Returns M' \<and>
            RowAlign M' = rowAlign data smod RowStride (SetRoot (root data) (SetGrid (grid data) M))"
proof -
  have a: "\<not> (colDist data = V \<or> colDist data = VPart)" "\<not> (rowDist data = V \<or> rowDist data = VPart)" "colDist data \<noteq> VScat" "rowDist data = VScat"
    using h by blast+
  show ?thesis unfolding AlignRowsWith_row_scat[OF a] by (simp add: ColAlign_AlignCols RowAlign_AlignRows)
qed

lemma AlignRowsWith_clause5:
  assumes h: "\<not> (colDist data = V \<or> colDist data = VPart) \<and> \<not> (rowDist data = V \<or> rowDist data = VPart) \<and> colDist data \<noteq> VScat \<and> rowDist data \<noteq> VScat \<and>
    (V = VGath \<or> colDist data = VGath \<or> rowDist data = VGath \<or> allowMismatch)"
  shows "\<exists>M'. AlignRowsWith V VPart VScat VGath data constrain allowMismatch M = Returns M' \<and> RowAlign M' = RowAlign M \<and> RowConstrained M' = RowConstrained M"
proof -
  have a: "\<not> (colDist data = V \<or> colDist data = VPart)" "\<not> (rowDist data = V \<or> rowDist data = VPart)" "colDist data \<noteq> VScat" "rowDist data \<noteq> VScat"
    using h by blast+
  show ?thesis unfolding AlignRowsWith_none[OF a] using h by (auto simp: align_setters_keep)
qed

lemma AlignRowsWith_clause6:
  assumes h: "\<not> (colDist data = V \<or> colDist data = VPart) \<and> \<not> (rowDist data = V \<or> rowDist data = VPart) \<and> colDist data \<noteq> VScat \<and> rowDist data \<noteq> VScat \<and>
    V \<noteq> VGath \<and> colDist data \<noteq> VGath \<and> rowDist data \<noteq> VGath \<and> \<not> allowMismatch"
  shows "AlignRowsWith V VPart VScat VGath data constrain allowMismatch M = Throws (LogicError ''Nonsensical alignment'') (SetRoot (root data) (SetGrid (grid data) M))"
proof -
  have a: "\<not> (colDist data = V \<or> colDist data = VPart)" "\<not> (rowDist data = V \<or> rowDist data = VPart)" "colDist data \<noteq> VScat" "rowDist data \<noteq> VScat"
    using h by blast+
  show ?thesis unfolding AlignRowsWith_none[OF a] using h by (auto simp: align_setters_keep)
qed

text \<open>
  Claim C5.  \<^verbatim>\<open>AlignColsWith\<close> (and \<^verbatim>\<open>AlignRowsWith\<close>, with \<open>V\<close> for \<open>U\<close>) adopts the alignment
  of the descriptor's compatible axis: the column axis before the row axis, an exact or
  partial match (\<open>U\<close>, \<open>UPart\<close>) as it is, and a scattered relative (\<open>UScat\<close>) reduced modulo
  the matrix's stride.  With no such axis, a replicated axis (\<open>UGath\<close>, on the matrix or
  on either axis of the descriptor) or \<open>allowMismatch\<close> leaves the alignment as it was and
  raises no error; otherwise the call fails with the logic error \<open>Nonsensical alignment\<close>.
\<close>

theorem AlignWith_adopts_alignment:
  fixes M :: "('a, 'g) DistMatrix"
  shows
  "(colDist data = U \<or> colDist data = UPart \<longrightarrow>
      (\<exists>M'. AlignColsWith U UPart UScat UGath data constrain allowMismatch M = Returns M' \<and> ColAlign M' = colAlign data)) \<and>
   (\<not> (colDist data = U \<or> colDist data = UPart) \<and> (rowDist data = U \<or> rowDist data = UPart) \<longrightarrow>
      (\<exists>M'. AlignColsWith U UPart UScat UGath data constrain allowMismatch M = Returns M' \<and> ColAlign M' = rowAlign data)) \<and>
   (\<not> (colDist data = U \<or> colDist data = UPart) \<and> \<not> (rowDist data = U \<or> rowDist data = UPart) \<and> colDist data = UScat \<longrightarrow>
      (\<exists>M'. AlignColsWith U UPart UScat UGath data constrain allowMismatch M = Returns M' \<and>
            ColAlign M' = colAlign data smod ColStride (SetRoot (root data) (SetGrid (grid data) M)))) \<and>
   (\<not> (colDist data = U \<or> colDist data = UPart) \<and> \<not> (rowDist data = U \<or> rowDist data = UPart) \<and> colDist data \<noteq> UScat \<and> rowDist data = UScat \<longrightarrow>
      (\<exists>M'. AlignColsWith U UPart UScat UGath data constrain allowMismatch M = Returns M' \<and>
            ColAlign M' = rowAlign data smod ColStride (SetRoot (root data) (SetGrid (grid data) M)))) \<and>
   (\<not> (colDist data = U \<or> colDist data = UPart) \<and> \<not> (rowDist data = U \<or> rowDist data = UPart) \<and> colDist data \<noteq> UScat \<and> rowDist data \<noteq> UScat \<and>
    (U = UGath \<or> colDist data = UGath \<or> rowDist data = UGath \<or> allowMismatch) \<longrightarrow>
      (\<exists>M'. AlignColsWith U UPart UScat UGath data constrain allowMismatch M = Returns M' \<and> ColAlign M' = ColAlign M \<and> ColConstrained M' = ColConstrained M)) \<and>
   (\<not> (colDist data = U \<or> colDist data = UPart) \<and> \<not> (rowDist data = U \<or> rowDist data = UPart) \<and> colDist data \<noteq> UScat \<and> rowDist data \<noteq> UScat \<and>
    U \<noteq> UGath \<and> colDist data \<noteq> UGath \<and> rowDist data \<noteq> UGath \<and> \<not> allowMismatch \<longrightarrow>
      AlignColsWith U UPart UScat UGath data constrain allowMismatch M = Throws (LogicError ''Nonsensical alignment'') (SetRoot (root data) (SetGrid (grid data) M))) \<and>
   (colDist data = V \<or> colDist data = VPart \<longrightarrow>
      (\<exists>M'. AlignRowsWith V VPart VScat VGath data constrain allowMismatch M = Returns M' \<and> RowAlign M' = colAlign data)) \<and>
   (\<not> (colDist data = V \<or> colDist data = VPart) \<and> (rowDist data = V \<or> rowDist data = VPart) \<longrightarrow>
      (\<exists>M'. AlignRowsWith V VPart VScat VGath data constrain allowMismatch M = Returns M' \<and> RowAlign M' = rowAlign data)) \<and>
   (\<not> (colDist data = V \<or> colDist data = VPart) \<and> \<not> (rowDist data = V \<or> rowDist data = VPart) \<and> colDist data = VScat \<longrightarrow>
      (\<exists>M'. AlignRowsWith V VPart VScat VGath data constrain allowMismatch M = Returns M' \<and>
            RowAlign M' = colAlign data smod RowStride (SetRoot (root data) (SetGrid (grid data) M)))) \<and>
   (\<not> (colDist data = V \<or> colDist data = VPart) \<and> \<not> (rowDist data = V \<or> rowDist data = VPart) \<and> colDist data \<noteq> VScat \<and> rowDist data = VScat \<longrightarrow>
      (\<exists>M'. AlignRowsWith V VPart VScat VGath data constrain allowMismatch M = Returns M' \<and>
            RowAlign M' = rowAlign data smod RowStride (SetRoot (root data) (SetGrid (grid data) M)))) \<and>
   (\<not> (colDist data = V \<or> colDist data = VPart) \<and> \<not> (rowDist data = V \<or> rowDist data = VPart) \<and> colDist data \<noteq> VScat \<and> rowDist data \<noteq> VScat \<and>
    (V = VGath \<or> colDist data = VGath \<or> rowDist data = VGath \<or> allowMismatch) \<longrightarrow>
      (\<exists>M'. AlignRowsWith V VPart VScat VGath data constrain allowMismatch M = Returns M' \<and> RowAlign M' = RowAlign M \<and> RowConstrained M' = RowConstrained M)) \<and>
   (\<not> (colDist data = V \<or> colDist data = VPart) \<and> \<not> (rowDist data = V \<or> rowDist data = VPart) \<and> colDist data \<noteq> VScat \<and> rowDist data \<noteq> VScat \<and>
    V \<noteq> VGath \<and> colDist data \<noteq> VGath \<and> rowDist data \<noteq> VGath \<and> \<not> allowMismatch \<longrightarrow>
      AlignRowsWith V VPart VScat VGath data constrain allowMismatch M = Throws (LogicError ''Nonsensical alignment'') (SetRoot (root data) (SetGrid (grid data) M)))"
  by (intro conjI impI)
     (erule AlignColsWith_clause1 AlignColsWith_clause2 AlignColsWith_clause3 AlignColsWith_clause4 AlignColsWith_clause5 AlignColsWith_clause6 AlignRowsWith_clause1 AlignRowsWith_clause2 AlignRowsWith_clause3 AlignRowsWith_clause4 AlignRowsWith_clause5 AlignRowsWith_clause6)+

theorem AlignWith_adopts_alignment_witness:
  "colDist (MC_MR_data (2, 3) 1 2) = MC \<and>
   (\<exists>M'. AlignColsWith MC MC VC STAR (MC_MR_data (2, 3) 1 2) True False (MC_MR_local (2, 3) 5 5 0 0 0 0 row_1_10_100) = Returns M' \<and> ColAlign M' = 1) \<and>
   colDist (CIRC_CIRC_data (2, 3) 1) \<noteq> MC \<and> rowDist (CIRC_CIRC_data (2, 3) 1) \<noteq> MC \<and>
   colDist (CIRC_CIRC_data (2, 3) 1) \<noteq> VC \<and> rowDist (CIRC_CIRC_data (2, 3) 1) \<noteq> VC \<and>
   colDist (CIRC_CIRC_data (2, 3) 1) \<noteq> STAR \<and> rowDist (CIRC_CIRC_data (2, 3) 1) \<noteq> STAR \<and>
   AlignColsWith MC MC VC STAR (CIRC_CIRC_data (2, 3) 1) True False (MC_MR_local (2, 3) 5 5 0 0 0 0 row_1_10_100)
     = Throws (LogicError ''Nonsensical alignment'') (SetRoot 1 (SetGrid (2, 3) (MC_MR_local (2, 3) 5 5 0 0 0 0 row_1_10_100)))"
proof -
  note t = AlignWith_adopts_alignment[where M = "(MC_MR_local (2, 3) 5 5 0 0 0 0 row_1_10_100)"
      and U = MC and UPart = MC and UScat = VC and UGath = STAR
      and constrain = True and allowMismatch = False]
  have h1: "colDist (MC_MR_data (2, 3) 1 2) = MC \<or> colDist (MC_MR_data (2, 3) 1 2) = MC"
    by (simp add: MC_MR_data_def)
  have c1: "\<exists>M'. AlignColsWith MC MC VC STAR (MC_MR_data (2, 3) 1 2) True False (MC_MR_local (2, 3) 5 5 0 0 0 0 row_1_10_100) = Returns M' \<and>
                 ColAlign M' = colAlign (MC_MR_data (2, 3) 1 2)"
    using t[where data = "MC_MR_data (2, 3) 1 2", THEN conjunct1, rule_format, OF h1] .
  have d: "colDist (CIRC_CIRC_data (2, 3) 1) = CIRC" "rowDist (CIRC_CIRC_data (2, 3) 1) = CIRC"
          "root (CIRC_CIRC_data (2, 3) 1) = 1" "grid (CIRC_CIRC_data (2, 3) 1) = (2, 3)"
    by (simp_all add: CIRC_CIRC_data_def)
  have h6: "\<not> (colDist (CIRC_CIRC_data (2, 3) 1) = MC \<or> colDist (CIRC_CIRC_data (2, 3) 1) = MC) \<and>
            \<not> (rowDist (CIRC_CIRC_data (2, 3) 1) = MC \<or> rowDist (CIRC_CIRC_data (2, 3) 1) = MC) \<and>
            colDist (CIRC_CIRC_data (2, 3) 1) \<noteq> VC \<and> rowDist (CIRC_CIRC_data (2, 3) 1) \<noteq> VC \<and>
            MC \<noteq> STAR \<and> colDist (CIRC_CIRC_data (2, 3) 1) \<noteq> STAR \<and>
            rowDist (CIRC_CIRC_data (2, 3) 1) \<noteq> STAR \<and> \<not> False"
    by (simp add: d)
  have c6: "AlignColsWith MC MC VC STAR (CIRC_CIRC_data (2, 3) 1) True False (MC_MR_local (2, 3) 5 5 0 0 0 0 row_1_10_100)
     = Throws (LogicError ''Nonsensical alignment'')
         (SetRoot (root (CIRC_CIRC_data (2, 3) 1)) (SetGrid (grid (CIRC_CIRC_data (2, 3) 1)) (MC_MR_local (2, 3) 5 5 0 0 0 0 row_1_10_100)))"
    using t[where data = "CIRC_CIRC_data (2, 3) 1", THEN conjunct2, THEN conjunct2, THEN conjunct2,
            THEN conjunct2, THEN conjunct2, THEN conjunct1, rule_format, OF h6] .
  show ?thesis using c1 c6 by (simp add: d MC_MR_data_def)
qed

section \<open>The state at a failure\<close>

text \<open>
  Claim C6, which has every check precede every write, fails for \<^verbatim>\<open>AlignColsWith\<close>: the
  grid and the root are assigned before the alignment is found nonsensical.  An \<^verbatim>\<open>[MC,MR]\<close>
  matrix of root 0 aligned with the descriptor of a \<^verbatim>\<open>[CIRC,CIRC]\<close> matrix of root 1 has
  root 1 when the error is thrown.
\<close>

theorem failure_mutates_counterexample:
  "AlignColsWith MC MC VC STAR (CIRC_CIRC_data (2, 3) 1) True False (MC_MR_local (2, 3) 5 5 0 0 0 0 row_1_10_100)
     = Throws (LogicError ''Nonsensical alignment'') ((MC_MR_local (2, 3) 5 5 0 0 0 0 row_1_10_100)\<lparr>Root := 1\<rparr>) \<and>
   Root ((MC_MR_local (2, 3) 5 5 0 0 0 0 row_1_10_100)\<lparr>Root := 1\<rparr>) \<noteq> Root (MC_MR_local (2, 3) 5 5 0 0 0 0 row_1_10_100)"
  by (simp add: AlignColsWith_def CIRC_CIRC_data_def SetRoot_def SetGrid_def MC_MR_local_def)

lemma AlignRowsWith_Throws_state:
  assumes "AlignRowsWith V VPart VScat VGath data constrain allowMismatch M = Throws e M'"
  shows "M' = SetRoot (root data) (SetGrid (grid data) M)"
  using assms unfolding AlignRowsWith_def Let_def by (simp split: if_splits)

lemma AlignColsWith_Throws_state:
  assumes "AlignColsWith U UPart UScat UGath data constrain allowMismatch M = Throws e M'"
  shows "M' = SetRoot (root data) (SetGrid (grid data) M)"
  using assms unfolding AlignColsWith_def Let_def by (simp split: if_splits)

lemma PartialRowSumScatterUpdate_Throws_state:
  assumes "PartialRowSumScatterUpdate Pad alpha A M = Throws e M'"
  shows "M' = M"
  using assms unfolding PartialRowSumScatterUpdate_def Let_def by (simp split: if_splits)

lemma PartialColSumScatterUpdate_Throws_state:
  assumes "PartialColSumScatterUpdate Pad alpha A M = Throws e M'"
  shows "M' = M"
  using assms unfolding PartialColSumScatterUpdate_def Let_def by (simp split: if_splits)

lemma SumScatterUpdate_never_Throws:
  "SumScatterUpdate Pad alpha A M \<noteq> Throws e M'"
  unfolding SumScatterUpdate_def Let_def by simp

text \<open>
  Claim C6, amended.  The unaligned check of \<^verbatim>\<open>PartialRowSumScatterUpdate\<close> and
  \<^verbatim>\<open>PartialColSumScatterUpdate\<close> precedes every write: when they throw, the destination
  (dimensions, alignment, grid, root, local buffer) is exactly as before the call;
  \<^verbatim>\<open>SumScatterUpdate\<close> never throws.  When \<^verbatim>\<open>AlignColsWith\<close> or \<^verbatim>\<open>AlignRowsWith\<close> throws,
  the matrix is the original after \<^verbatim>\<open>SetGrid\<close> and \<^verbatim>\<open>SetRoot\<close> with the descriptor's grid
  and root, and nothing else has been applied.  When \<^verbatim>\<open>PartialRowSumScatterFrom\<close> or
  \<^verbatim>\<open>PartialColSumScatterFrom\<close> throws, the destination is the original after
  \<^verbatim>\<open>AlignAndResize\<close> and \<^verbatim>\<open>Zeros\<close>.
\<close>

theorem failure_state:
  "(PartialRowSumScatterUpdate Pad alpha A M = Throws e M' \<longrightarrow> M' = M) \<and>
   (PartialColSumScatterUpdate Pad alpha A M = Throws e M' \<longrightarrow> M' = M) \<and>
   SumScatterUpdate Pad alpha A M \<noteq> Throws e M' \<and>
   (AlignColsWith U UPart UScat UGath data constrain allowMismatch M = Throws e M' \<longrightarrow>
      M' = SetRoot (root data) (SetGrid (grid data) M)) \<and>
   (AlignRowsWith V VPart VScat VGath data constrain allowMismatch M = Throws e M' \<longrightarrow>
      M' = SetRoot (root data) (SetGrid (grid data) M)) \<and>
   (PartialRowSumScatterFrom AlignAndResize Zeros Pad A M = Throws e M' \<longrightarrow>
      M' = Zeros (LocalHeight (AlignAndResize (ColAlign A) (RowAlign A) (Height A) (Width A) False False M))
                 (LocalWidth (AlignAndResize (ColAlign A) (RowAlign A) (Height A) (Width A) False False M))
                 (AlignAndResize (ColAlign A) (RowAlign A) (Height A) (Width A) False False M)) \<and>
   (PartialColSumScatterFrom AlignAndResize Zeros Pad A M = Throws e M' \<longrightarrow>
      M' = Zeros (LocalHeight (AlignAndResize (ColAlign A) (RowAlign A) (Height A) (Width A) False False M))
                 (LocalWidth (AlignAndResize (ColAlign A) (RowAlign A) (Height A) (Width A) False False M))
                 (AlignAndResize (ColAlign A) (RowAlign A) (Height A) (Width A) False False M))"
proof (intro conjI impI)
  show "SumScatterUpdate Pad alpha A M \<noteq> Throws e M'" by (rule SumScatterUpdate_never_Throws)
qed (auto simp: PartialRowSumScatterFrom_def PartialColSumScatterFrom_def Let_def
      dest: PartialRowSumScatterUpdate_Throws_state PartialColSumScatterUpdate_Throws_state
            AlignColsWith_Throws_state AlignRowsWith_Throws_state)

theorem failure_state_witness:
  "PartialRowSumScatterUpdate Pad_one 1 (MC_MR_local (2, 2) 4 4 0 0 0 0 row_1_10_100)
       (MC_MR_local (2, 2) 4 4 1 1 0 0 row_1_10_100)
     = Throws (LogicError ''Unaligned PartialRowSumScatterUpdate not implemented'')
         (MC_MR_local (2, 2) 4 4 1 1 0 0 row_1_10_100) \<and>
   AlignColsWith MC MC VC STAR (CIRC_CIRC_data (2, 3) 1) True False (MC_MR_local (2, 3) 5 5 0 0 0 0 row_1_10_100)
     = Throws (LogicError ''Nonsensical alignment'') ((MC_MR_local (2, 3) 5 5 0 0 0 0 row_1_10_100)\<lparr>Root := 1\<rparr>) \<and>
   (MC_MR_local (2, 3) 5 5 0 0 0 0 row_1_10_100)\<lparr>Root := 1\<rparr> = SetRoot (root (CIRC_CIRC_data (2, 3) 1)) (SetGrid (grid (CIRC_CIRC_data (2, 3) 1)) (MC_MR_local (2, 3) 5 5 0 0 0 0 row_1_10_100))"
proof -
  have r: "PartialRowSumScatterUpdate Pad_one 1 (MC_MR_local (2, 2) 4 4 0 0 0 0 row_1_10_100)
       (MC_MR_local (2, 2) 4 4 1 1 0 0 row_1_10_100)
     = Throws (LogicError ''Unaligned PartialRowSumScatterUpdate not implemented'')
         (MC_MR_local (2, 2) 4 4 1 1 0 0 row_1_10_100)"
    by (simp add: PartialRowSumScatterUpdate_def MC_MR_local_def RowStride_def
          signed_modulo_int_def signed_divide_int_def)
  have a: "AlignColsWith MC MC VC STAR (CIRC_CIRC_data (2, 3) 1) True False (MC_MR_local (2, 3) 5 5 0 0 0 0 row_1_10_100)
     = Throws (LogicError ''Nonsensical alignment'') ((MC_MR_local (2, 3) 5 5 0 0 0 0 row_1_10_100)\<lparr>Root := 1\<rparr>)"
    by (simp add: AlignColsWith_def CIRC_CIRC_data_def SetRoot_def SetGrid_def MC_MR_local_def)
  note t = failure_state[where e = "LogicError ''Nonsensical alignment''"
      and M = "(MC_MR_local (2, 3) 5 5 0 0 0 0 row_1_10_100)" and M' = "(MC_MR_local (2, 3) 5 5 0 0 0 0 row_1_10_100)\<lparr>Root := 1\<rparr>"
      and U = MC and UPart = MC and UScat = VC and UGath = STAR
      and data = "CIRC_CIRC_data (2, 3) 1" and constrain = True and allowMismatch = False]
  have s: "(MC_MR_local (2, 3) 5 5 0 0 0 0 row_1_10_100)\<lparr>Root := 1\<rparr>
             = SetRoot (root (CIRC_CIRC_data (2, 3) 1)) (SetGrid (grid (CIRC_CIRC_data (2, 3) 1)) (MC_MR_local (2, 3) 5 5 0 0 0 0 row_1_10_100))"
    using t[THEN conjunct2, THEN conjunct2, THEN conjunct2, THEN conjunct1, rule_format, OF a] .
  show ?thesis by (intro conjI r a s)
qed

section \<open>The transposed-transposed variant of the triangular rank-2k update\<close>

text \<open>
  Claim C10.  \<^verbatim>\<open>Trr2kTTNN(uplo, orientationOfA, orientationOfB, alpha, A, B, C, D, beta, E)\<close>
  is the delegated call \<^verbatim>\<open>Trr2kNNTT(uplo, orientationOfA, orientationOfB, alpha, C, D, A, B, beta, E)\<close>
  with the operand pairs \<open>(A, B)\<close> and \<open>(C, D)\<close> exchanged, and with \<^verbatim>\<open>Trr2kNNTT\<close> computing
  \<open>E := alpha (A B + C^{T/H} D^{T/H}) + beta E\<close> it computes
  \<open>E := alpha (A^{T/H} B^{T/H} + C D) + beta E\<close>.
\<close>

theorem Trr2kTTNN_delegates:
  "Trr2kTTNN Trr2kNNTT uplo orientationOfA orientationOfB alpha A B C D beta E =
     Trr2kNNTT uplo orientationOfA orientationOfB alpha C D A B beta E \<and>
   Trr2kTTNN Trr2kNNTT_spec uplo orientationOfA orientationOfB alpha' A' B' C' D' beta' E' =
     Trr2kTTNN_spec uplo orientationOfA orientationOfB alpha' A' B' C' D' beta' E'"
proof -
  have swap: "\<And>i j. product_entry C' D' i j
                   + product_entry (orient orientationOfA A') (orient orientationOfB B') i j
                 = product_entry (orient orientationOfA A') (orient orientationOfB B') i j
                   + product_entry C' D' i j"
    by (rule add.commute)
  show ?thesis
    unfolding Trr2kTTNN_def Trr2kNNTT_spec_def Trr2kTTNN_spec_def swap by simp
qed

section \<open>The diagonal round trip\<close>

lemma For_nat: "For n body s = For (int (nat n)) body s"
  by (simp add: For_def)

lemma For_0: "For 0 body s = s"
  by (simp add: For_def)

lemma For_int_Suc: "For (int (Suc m)) body s = body (int m) (For (int m) body s)"
  unfolding For_def nat_int by simp

lemma For_cong:
  assumes "\<And>k s. 0 \<le> k \<Longrightarrow> k < n \<Longrightarrow> body1 k s = body2 k s"
  shows "For n body1 s = For n body2 s"
proof -
  have "For (int m) body1 s = For (int m) body2 s" if "int m \<le> max n 0" for m
    using that
  proof (induction m)
    case 0
    show ?case by (simp add: For_0)
  next
    case (Suc m)
    have "0 \<le> int m" "int m < n" using Suc.prems by linarith+
    then have "body1 (int m) (For (int m) body1 s) = body2 (int m) (For (int m) body1 s)"
      by (rule assms)
    moreover have "For (int m) body1 s = For (int m) body2 s" using Suc by simp
    ultimately show ?case by (simp only: For_int_Suc)
  qed
  from this[of "nat n"] show ?thesis
    using For_nat[of n body1 s] For_nat[of n body2 s] by simp
qed

lemma For_gather:
  "For n (\<lambda>k b. b(k := g k (b k))) b0 = (\<lambda>t. if 0 \<le> t \<and> t < n then g t (b0 t) else b0 t)"
proof -
  have "For (int m) (\<lambda>k b. b(k := g k (b k))) b0
          = (\<lambda>t. if 0 \<le> t \<and> t < int m then g t (b0 t) else b0 t)" for m
  proof (induction m)
    case 0
    show ?case by (rule ext) (auto simp: For_0)
  next
    case (Suc m)
    show ?case unfolding For_int_Suc Suc.IH by (rule ext) auto
  qed
  from this[of "nat n"] show ?thesis
    unfolding For_nat[of n, symmetric] by (rule trans) (rule ext, auto)
qed

lemma For_scatter:
  "For n (\<lambda>k b. b(idx k := f (idx k))) b0
     = (\<lambda>t. if (\<exists>k. 0 \<le> k \<and> k < n \<and> t = idx k) then f t else b0 t)"
proof -
  have "For (int m) (\<lambda>k b. b(idx k := f (idx k))) b0
          = (\<lambda>t. if (\<exists>k. 0 \<le> k \<and> k < int m \<and> t = idx k) then f t else b0 t)" for m
  proof (induction m)
    case 0
    show ?case by (rule ext) (auto simp: For_0)
  next
    case (Suc m)
    have split: "(\<exists>k. 0 \<le> k \<and> k < int (Suc m) \<and> t = idx k)
                  \<longleftrightarrow> t = idx (int m) \<or> (\<exists>k. 0 \<le> k \<and> k < int m \<and> t = idx k)" for t
    proof
      assume "\<exists>k. 0 \<le> k \<and> k < int (Suc m) \<and> t = idx k"
      then obtain k where k: "0 \<le> k" "k < int (Suc m)" "t = idx k" by blast
      then have "k = int m \<or> k < int m" by auto
      then show "t = idx (int m) \<or> (\<exists>k. 0 \<le> k \<and> k < int m \<and> t = idx k)" using k by blast
    next
      assume "t = idx (int m) \<or> (\<exists>k. 0 \<le> k \<and> k < int m \<and> t = idx k)"
      then show "\<exists>k. 0 \<le> k \<and> k < int (Suc m) \<and> t = idx k"
      proof
        assume "t = idx (int m)"
        then show ?thesis by (intro exI[of _ "int m"]) simp
      next
        assume "\<exists>k. 0 \<le> k \<and> k < int m \<and> t = idx k"
        then obtain k where "0 \<le> k" "k < int m" "t = idx k" by blast
        then show ?thesis by (intro exI[of _ k]) simp
      qed
    qed
    show ?case unfolding For_int_Suc Suc.IH split by (rule ext) auto
  qed
  from this[of "nat n"] have "For n (\<lambda>k b. b(idx k := f (idx k))) b0
     = (\<lambda>t. if (\<exists>k. 0 \<le> k \<and> k < int (nat n) \<and> t = idx k) then f t else b0 t)"
    unfolding For_nat[of n, symmetric] .
  moreover have "(\<exists>k. 0 \<le> k \<and> k < int (nat n) \<and> t = idx k) \<longleftrightarrow> (\<exists>k. 0 \<le> k \<and> k < n \<and> t = idx k)" for t
    by (cases "0 \<le> n") auto
  ultimately show ?thesis by simp
qed

lemma For_gather_vals:
  "For n (\<lambda>k b. b(k := v k)) b0 = (\<lambda>t. if 0 \<le> t \<and> t < n then v t else b0 t)"
  using For_gather[where g = "\<lambda>k x. v k"] .

lemma For_scatter_vals:
  assumes "\<And>k. 0 \<le> k \<Longrightarrow> k < n \<Longrightarrow> v k = f (idx k)"
  shows "For n (\<lambda>k b. b(idx k := v k)) b0
           = (\<lambda>t. if (\<exists>k. 0 \<le> k \<and> k < n \<and> t = idx k) then f t else b0 t)"
proof -
  have "For n (\<lambda>k b. b(idx k := v k)) b0 = For n (\<lambda>k b. b(idx k := f (idx k))) b0"
    by (rule For_cong) (simp add: assms)
  then show ?thesis by (simp only: For_scatter)
qed

lemma GetDiagonal_eq:
  "GetDiagonal M d offset =
     (if \<not> Participating d then d
      else d\<lparr>Buffer := (\<lambda>t. if 0 \<le> t \<and> t < LocalHeight d
                             then Buffer M (diag_index M d offset t) else Buffer d t)\<rparr>)"
  unfolding GetDiagonal_def GetDiagonalHelper_def diag_index_def Let_def
  by (simp add: For_gather_vals)

lemma SetDiagonal_eq:
  "SetDiagonal d offset N =
     (if \<not> Participating d then N
      else N\<lparr>Buffer := For (LocalHeight d)
              (\<lambda>k buffer. buffer(diag_index N d offset k := Buffer d k)) (Buffer N)\<rparr>)"
  unfolding SetDiagonal_def SetDiagonalHelper_def diag_index_def Let_def
  by simp

lemma diag_index_layout:
  assumes "ColStride N = ColStride M" "RowStride N = RowStride M" "ColShift N = ColShift M"
    "RowShift N = RowShift M" "LDim N = LDim M"
    and "ColShift d' = ColShift d" "ColStride d' = ColStride d"
  shows "diag_index N d' offset k = diag_index M d offset k"
  using assms by (simp add: diag_index_def)

lemma SetDiagonal_GetDiagonal:
  assumes "ColStride N = ColStride M" "RowStride N = RowStride M" "ColShift N = ColShift M"
    "RowShift N = RowShift M" "LDim N = LDim M"
  shows "SetDiagonal (GetDiagonal M d offset) offset N =
           N\<lparr>Buffer := (\<lambda>t. if Participating d \<and>
                                   (\<exists>k. 0 \<le> k \<and> k < LocalHeight d \<and> t = diag_index M d offset k)
                                then Buffer M t else Buffer N t)\<rparr>"
proof (cases "Participating d")
  case False
  then show ?thesis by (simp add: GetDiagonal_eq SetDiagonal_eq)
next
  case True
  define d' where "d' = GetDiagonal M d offset"
  have d': "d' = d\<lparr>Buffer := (\<lambda>t. if 0 \<le> t \<and> t < LocalHeight d
                             then Buffer M (diag_index M d offset t) else Buffer d t)\<rparr>"
    unfolding d'_def using True by (simp add: GetDiagonal_eq)
  have meta: "Participating d'" "LocalHeight d' = LocalHeight d" "ColShift d' = ColShift d"
    "ColStride d' = ColStride d"
    using True by (simp_all add: d' ColStride_def)
  have idx: "diag_index N d' offset k = diag_index M d offset k" for k
    by (rule diag_index_layout[OF assms meta(3,4)])
  have vals: "Buffer d' k = Buffer M (diag_index M d offset k)" if "0 \<le> k" "k < LocalHeight d" for k
    using that by (simp add: d')
  have "SetDiagonal d' offset N =
          N\<lparr>Buffer := For (LocalHeight d)
              (\<lambda>k buffer. buffer(diag_index M d offset k := Buffer d' k)) (Buffer N)\<rparr>"
    using meta(1,2) by (simp add: SetDiagonal_eq idx)
  also have "For (LocalHeight d) (\<lambda>k buffer. buffer(diag_index M d offset k := Buffer d' k)) (Buffer N)
      = (\<lambda>t. if (\<exists>k. 0 \<le> k \<and> k < LocalHeight d \<and> t = diag_index M d offset k)
              then Buffer M t else Buffer N t)"
    by (rule For_scatter_vals) (rule vals)
  finally show ?thesis using True by (simp add: d'_def)
qed

text \<open>
  Claim C8.  For every matrix \<open>M\<close>, every diagonal proxy \<open>d\<close> (hence every grid shape) and
  every offset, \<^verbatim>\<open>SetDiagonal(GetDiagonal(M, offset), offset)\<close> on a copy of \<open>M\<close> reproduces \<open>M\<close>.
  More generally, on any matrix \<open>N\<close> laid out as \<open>M\<close> it stores \<open>M\<close>'s entry at every local
  diagonal position the helpers visit, each position once with one value, and changes
  nothing else: no diagonal entry is dropped or duplicated.
\<close>

theorem diagonal_round_trip:
  "SetDiagonal (GetDiagonal M d offset) offset M = M \<and>
   (ColStride N = ColStride M \<and> RowStride N = RowStride M \<and> ColShift N = ColShift M \<and>
    RowShift N = RowShift M \<and> LDim N = LDim M \<longrightarrow>
      SetDiagonal (GetDiagonal M d offset) offset N =
        N\<lparr>Buffer := (\<lambda>t. if Participating d \<and>
                                (\<exists>k. 0 \<le> k \<and> k < LocalHeight d \<and> t = diag_index M d offset k)
                             then Buffer M t else Buffer N t)\<rparr>)"
proof (intro conjI impI)
  have "SetDiagonal (GetDiagonal M d offset) offset M =
          M\<lparr>Buffer := (\<lambda>t. if Participating d \<and>
                                (\<exists>k. 0 \<le> k \<and> k < LocalHeight d \<and> t = diag_index M d offset k)
                             then Buffer M t else Buffer M t)\<rparr>"
    by (rule SetDiagonal_GetDiagonal) simp_all
  then show "SetDiagonal (GetDiagonal M d offset) offset M = M" by simp
next
  assume "ColStride N = ColStride M \<and> RowStride N = RowStride M \<and> ColShift N = ColShift M \<and>
    RowShift N = RowShift M \<and> LDim N = LDim M"
  then show "SetDiagonal (GetDiagonal M d offset) offset N =
        N\<lparr>Buffer := (\<lambda>t. if Participating d \<and>
                                (\<exists>k. 0 \<le> k \<and> k < LocalHeight d \<and> t = diag_index M d offset k)
                             then Buffer M t else Buffer N t)\<rparr>"
    by (intro SetDiagonal_GetDiagonal) simp_all
qed

theorem diagonal_round_trip_witness:
  "ColStride (MC_MR_local (2, 2) 4 4 0 0 0 0 zero_buffer) = ColStride (MC_MR_local (2, 2) 4 4 0 0 0 0 ramp_buffer) \<and> RowStride (MC_MR_local (2, 2) 4 4 0 0 0 0 zero_buffer) = RowStride (MC_MR_local (2, 2) 4 4 0 0 0 0 ramp_buffer) \<and> ColShift (MC_MR_local (2, 2) 4 4 0 0 0 0 zero_buffer) = ColShift (MC_MR_local (2, 2) 4 4 0 0 0 0 ramp_buffer) \<and>
   RowShift (MC_MR_local (2, 2) 4 4 0 0 0 0 zero_buffer) = RowShift (MC_MR_local (2, 2) 4 4 0 0 0 0 ramp_buffer) \<and> LDim (MC_MR_local (2, 2) 4 4 0 0 0 0 zero_buffer) = LDim (MC_MR_local (2, 2) 4 4 0 0 0 0 ramp_buffer) \<and>
   Buffer (SetDiagonal (GetDiagonal (MC_MR_local (2, 2) 4 4 0 0 0 0 ramp_buffer) (MD_STAR_local (2, 2) 4 0 zero_buffer) 0) 0 (MC_MR_local (2, 2) 4 4 0 0 0 0 zero_buffer)) 0 = 10 \<and>
   Buffer (SetDiagonal (GetDiagonal (MC_MR_local (2, 2) 4 4 0 0 0 0 ramp_buffer) (MD_STAR_local (2, 2) 4 0 zero_buffer) 0) 0 (MC_MR_local (2, 2) 4 4 0 0 0 0 zero_buffer)) 1 = 0 \<and>
   Buffer (SetDiagonal (GetDiagonal (MC_MR_local (2, 2) 4 4 0 0 0 0 ramp_buffer) (MD_STAR_local (2, 2) 4 0 zero_buffer) 0) 0 (MC_MR_local (2, 2) 4 4 0 0 0 0 zero_buffer)) 2 = 0 \<and>
   Buffer (SetDiagonal (GetDiagonal (MC_MR_local (2, 2) 4 4 0 0 0 0 ramp_buffer) (MD_STAR_local (2, 2) 4 0 zero_buffer) 0) 0 (MC_MR_local (2, 2) 4 4 0 0 0 0 zero_buffer)) 3 = 13"
proof -
  have h: "ColStride (MC_MR_local (2, 2) 4 4 0 0 0 0 zero_buffer) = ColStride (MC_MR_local (2, 2) 4 4 0 0 0 0 ramp_buffer) \<and> RowStride (MC_MR_local (2, 2) 4 4 0 0 0 0 zero_buffer) = RowStride (MC_MR_local (2, 2) 4 4 0 0 0 0 ramp_buffer) \<and> ColShift (MC_MR_local (2, 2) 4 4 0 0 0 0 zero_buffer) = ColShift (MC_MR_local (2, 2) 4 4 0 0 0 0 ramp_buffer) \<and>
   RowShift (MC_MR_local (2, 2) 4 4 0 0 0 0 zero_buffer) = RowShift (MC_MR_local (2, 2) 4 4 0 0 0 0 ramp_buffer) \<and> LDim (MC_MR_local (2, 2) 4 4 0 0 0 0 zero_buffer) = LDim (MC_MR_local (2, 2) 4 4 0 0 0 0 ramp_buffer)"
    by (simp add: MC_MR_local_def ColStride_def RowStride_def)
  note t = diagonal_round_trip[where M = "(MC_MR_local (2, 2) 4 4 0 0 0 0 ramp_buffer)" and N = "(MC_MR_local (2, 2) 4 4 0 0 0 0 zero_buffer)" and d = "(MD_STAR_local (2, 2) 4 0 zero_buffer)" and offset = 0,
             THEN conjunct2, rule_format, OF h]
  have len: "LocalHeight (MD_STAR_local (2, 2) 4 0 zero_buffer) = 2"
    by (simp add: MD_STAR_local_def Length_def ceil_quot_def)
  have idx: "diag_index (MC_MR_local (2, 2) 4 4 0 0 0 0 ramp_buffer) (MD_STAR_local (2, 2) 4 0 zero_buffer) 0 k = 3 * k" for k
    by (simp add: diag_index_def MC_MR_local_def MD_STAR_local_def ColStride_def RowStride_def
          Shift_def Length_def ceil_quot_def signed_divide_int_def)
  have p: "Participating (MD_STAR_local (2, 2) 4 0 zero_buffer)" by (simp add: MD_STAR_local_def)
  have hit: "(\<exists>k. 0 \<le> k \<and> k < (2::int) \<and> t = 3 * k) \<longleftrightarrow> t = 0 \<or> t = 3" for t :: int
  proof
    assume "\<exists>k. 0 \<le> k \<and> k < (2::int) \<and> t = 3 * k"
    then obtain k where k: "0 \<le> k" "k < 2" "t = 3 * k" by blast
    then have "k = 0 \<or> k = 1" by linarith
    then show "t = 0 \<or> t = 3" using k by auto
  next
    assume "t = 0 \<or> t = 3"
    then show "\<exists>k. 0 \<le> k \<and> k < (2::int) \<and> t = 3 * k"
    proof
      assume "t = 0" then show ?thesis by (intro exI[of _ 0]) simp
    next
      assume "t = 3" then show ?thesis by (intro exI[of _ 1]) simp
    qed
  qed
  have b: "Buffer (SetDiagonal (GetDiagonal (MC_MR_local (2, 2) 4 4 0 0 0 0 ramp_buffer) (MD_STAR_local (2, 2) 4 0 zero_buffer) 0) 0 (MC_MR_local (2, 2) 4 4 0 0 0 0 zero_buffer)) t
             = (if t = 0 \<or> t = 3 then Buffer (MC_MR_local (2, 2) 4 4 0 0 0 0 ramp_buffer) t else Buffer (MC_MR_local (2, 2) 4 4 0 0 0 0 zero_buffer) t)" for t
    unfolding t by (simp add: p len idx hit)
  have "Buffer (SetDiagonal (GetDiagonal (MC_MR_local (2, 2) 4 4 0 0 0 0 ramp_buffer) (MD_STAR_local (2, 2) 4 0 zero_buffer) 0) 0 (MC_MR_local (2, 2) 4 4 0 0 0 0 zero_buffer)) 0 = 10"
       "Buffer (SetDiagonal (GetDiagonal (MC_MR_local (2, 2) 4 4 0 0 0 0 ramp_buffer) (MD_STAR_local (2, 2) 4 0 zero_buffer) 0) 0 (MC_MR_local (2, 2) 4 4 0 0 0 0 zero_buffer)) 1 = 0"
       "Buffer (SetDiagonal (GetDiagonal (MC_MR_local (2, 2) 4 4 0 0 0 0 ramp_buffer) (MD_STAR_local (2, 2) 4 0 zero_buffer) 0) 0 (MC_MR_local (2, 2) 4 4 0 0 0 0 zero_buffer)) 2 = 0"
       "Buffer (SetDiagonal (GetDiagonal (MC_MR_local (2, 2) 4 4 0 0 0 0 ramp_buffer) (MD_STAR_local (2, 2) 4 0 zero_buffer) 0) 0 (MC_MR_local (2, 2) 4 4 0 0 0 0 zero_buffer)) 3 = 13"
    unfolding b by (simp_all add: MC_MR_local_def ramp_buffer_def zero_buffer_def)
  then show ?thesis using h by simp
qed

section \<open>The owners of a diagonal\<close>

lemma owns_owner_of:
  assumes "0 < r" and "0 < c" and "0 \<le> i" "i < height" and "0 \<le> j" "j < width"
    and "0 \<le> k" "k < r" and "0 \<le> l" "l < c"
  shows "owns height width r c cAlign rAlign k l i j \<longleftrightarrow> (k, l) = owner_of r c cAlign rAlign i j"
  unfolding owns_def owner_of_def
  using owns_index_owner[OF assms(1,3,4,7,8), of cAlign] owns_index_owner[OF assms(2,5,6,9,10), of rAlign]
  by simp

lemma diag_owner_periodic:
  assumes r: "0 < r" and c: "0 < c"
  shows "owner_of r c cAlign rAlign (t mod lcm r c + a) (t mod lcm r c + b)
           = owner_of r c cAlign rAlign (t + a) (t + b)"
proof -
  have "(t mod lcm r c) mod r = t mod r" by (simp add: mod_mod_cancel)
  then have 1: "(t mod lcm r c + a + cAlign) mod r = (t + a + cAlign) mod r"
    by (metis (no_types, opaque_lifting) add.assoc mod_add_left_eq)
  have "(t mod lcm r c) mod c = t mod c" by (simp add: mod_mod_cancel)
  then have 2: "(t mod lcm r c + b + rAlign) mod c = (t + b + rAlign) mod c"
    by (metis (no_types, opaque_lifting) add.assoc mod_add_left_eq)
  show ?thesis by (simp add: owner_of_def 1 2)
qed

lemma diag_owner_inj:
  assumes r: "0 < r" and c: "0 < c"
  shows "inj_on (\<lambda>t. owner_of r c cAlign rAlign (t + a) (t + b)) {0..lcm r c - 1}"
proof (rule inj_onI)
  fix s t
  assume s: "s \<in> {0..lcm r c - 1}" and t: "t \<in> {0..lcm r c - 1}"
    and e: "owner_of r c cAlign rAlign (s + a) (s + b) = owner_of r c cAlign rAlign (t + a) (t + b)"
  from e have "(s + a + cAlign) mod r = (t + a + cAlign) mod r"
    and "(s + b + rAlign) mod c = (t + b + rAlign) mod c"
    by (simp_all add: owner_of_def)
  then have "r dvd (s + a + cAlign) - (t + a + cAlign)" "c dvd (s + b + rAlign) - (t + b + rAlign)"
    by (simp_all add: mod_eq_dvd_iff)
  then have "r dvd s - t" "c dvd s - t" by (simp_all add: algebra_simps)
  then have d: "lcm r c dvd s - t" by (rule lcm_least)
  have "\<bar>s - t\<bar> < lcm r c" using s t by auto
  then show "s = t" using d
    by (metis abs_of_nonneg abs_ge_zero dvd_imp_le_int eq_iff_diff_eq_0 lcm_ge_0_int linorder_not_less)
qed

lemma diag_owners_set:
  assumes r: "0 < r" and c: "0 < c" and n: "lcm r c \<le> n"
  shows "set (diag_owners r c cAlign rAlign offset n)
           = (\<lambda>t. owner_of r c cAlign rAlign (t + max (- offset) 0) (t + max offset 0)) ` {0..lcm r c - 1}"
proof -
  let ?f = "\<lambda>t. owner_of r c cAlign rAlign (t + max (- offset) 0) (t + max offset 0)"
  have L: "0 < lcm r c" using r c by (simp add: lcm_pos_int)
  have "set (diag_owners r c cAlign rAlign offset n) = ?f ` {0..n - 1}"
    by (simp add: diag_owners_def)
  also have "\<dots> = ?f ` {0..lcm r c - 1}"
  proof
    show "?f ` {0..n - 1} \<subseteq> ?f ` {0..lcm r c - 1}"
    proof
      fix x assume "x \<in> ?f ` {0..n - 1}"
      then obtain t where x: "x = ?f t" by blast
      have "t mod lcm r c \<in> {0..lcm r c - 1}" using L by simp
      moreover have "?f (t mod lcm r c) = ?f t" by (rule diag_owner_periodic[OF r c])
      ultimately show "x \<in> ?f ` {0..lcm r c - 1}" unfolding x by (metis (no_types, lifting) image_eqI)
    qed
    show "?f ` {0..lcm r c - 1} \<subseteq> ?f ` {0..n - 1}"
      using n by (intro image_mono) simp
  qed
  finally show ?thesis .
qed

lemma diag_owners_length:
  assumes r: "0 < r" and c: "0 < c" and n: "lcm r c \<le> n"
  shows "length (diag_owners r c cAlign rAlign offset n) = nat (lcm r c)"
proof -
  have "length (diag_owners r c cAlign rAlign offset n) = card (set (diag_owners r c cAlign rAlign offset n))"
    unfolding diag_owners_def by (simp add: length_remdups_card_conv)
  also have "\<dots> = card {0..lcm r c - 1}"
    unfolding diag_owners_set[OF r c n] by (rule card_image) (rule diag_owner_inj[OF r c])
  also have "\<dots> = nat (lcm r c)" by simp
  finally show ?thesis .
qed

lemma lcm_eq_prod_iff:
  assumes r: "0 < (r::int)" and c: "0 < c"
  shows "lcm r c = r * c \<longleftrightarrow> coprime r c"
proof -
  have p: "r * c = gcd r c * lcm r c" using prod_gcd_lcm_int[of r c] r c by simp
  have L: "0 < lcm r c" using r c by (simp add: lcm_pos_int)
  show ?thesis
  proof
    assume "lcm r c = r * c"
    then have "gcd r c * lcm r c = 1 * lcm r c" using p by (simp only: mult_1)
    moreover have "lcm r c \<noteq> 0" using L by linarith
    ultimately have "gcd r c = 1" by (simp only: mult_cancel_right) simp
    then show "coprime r c" by (simp add: coprime_iff_gcd_eq_1)
  next
    assume "coprime r c"
    then have "gcd r c = 1" by (simp add: coprime_iff_gcd_eq_1)
    then show "lcm r c = r * c" using p by simp
  qed
qed

text \<open>
  Claim C7, which has the diagonal distributed over exactly \<open>gcd(colStride, rowStride)\<close>
  processes, fails: on a \<open>2 \<times> 3\<close> grid the six entries of the main diagonal of a \<open>6 \<times> 6\<close>
  matrix have six distinct owners, and \<open>gcd 2 3 = 1\<close>.
\<close>

theorem diagonal_owner_count_counterexample:
  "length (diag_owners 2 3 0 0 0 6) \<noteq> nat (gcd 2 3)"
  by (simp add: diag_owners_def owner_of_def upto.simps)

text \<open>
  Claim C7, amended.  On an \<open>r \<times> c\<close> grid, for every alignment and every offset, a diagonal
  of at least \<open>lcm r c\<close> entries is distributed over exactly \<open>lcm r c\<close> distinct owning
  processes; it covers the entire grid, \<open>r * c\<close> processes, if and only if \<open>r\<close> and \<open>c\<close> are
  coprime.  The proxy that receives it is requested with its column alignment and its root
  constrained to \<^verbatim>\<open>DiagonalAlign(offset)\<close> and \<^verbatim>\<open>DiagonalRoot(offset)\<close>.
\<close>

theorem diagonal_owner_count:
  assumes "1 \<le> r" and "1 \<le> c" and "lcm r c \<le> n"
  shows "length (diag_owners r c cAlign rAlign offset n) = nat (lcm r c) \<and>
         (length (diag_owners r c cAlign rAlign offset n) = nat (r * c) \<longleftrightarrow> coprime r c) \<and>
         ctrl_colConstrain (GetDiagonalHelper_ctrl DiagonalAlign DiagonalRoot M offset) \<and>
         ctrl_colAlign (GetDiagonalHelper_ctrl DiagonalAlign DiagonalRoot M offset)
           = DiagonalAlign M offset \<and>
         ctrl_rootConstrain (GetDiagonalHelper_ctrl DiagonalAlign DiagonalRoot M offset) \<and>
         ctrl_root (GetDiagonalHelper_ctrl DiagonalAlign DiagonalRoot M offset)
           = DiagonalRoot M offset"
proof -
  have r: "0 < r" and c: "0 < c" using assms by linarith+
  have len: "length (diag_owners r c cAlign rAlign offset n) = nat (lcm r c)"
    by (rule diag_owners_length[OF r c assms(3)])
  have L: "0 < lcm r c" using r c by (simp add: lcm_pos_int)
  have "0 < r * c" using r c by simp
  then have "nat (lcm r c) = nat (r * c) \<longleftrightarrow> lcm r c = r * c" using L by auto
  then show ?thesis using len lcm_eq_prod_iff[OF r c]
    by (simp add: GetDiagonalHelper_ctrl_def)
qed

theorem diagonal_owner_count_witness:
  "(1::int) \<le> 2 \<and> (1::int) \<le> 3 \<and> lcm 2 3 \<le> (6::int) \<and>
   length (diag_owners 2 3 0 0 0 6) = nat (lcm 2 3) \<and>
   length (diag_owners 2 3 0 0 0 6) = nat (2 * 3) \<and> coprime (2::int) 3"
proof -
  have h: "(1::int) \<le> 2" "(1::int) \<le> 3" by simp_all
  have "lcm (2::int) 3 = 2 * 3" using lcm_eq_prod_iff[of 2 3] by simp
  then have l: "lcm 2 3 \<le> (6::int)" by simp
  note t = diagonal_owner_count[OF h l, of 0 0 0 "\<lambda>M offset. 0" "\<lambda>M offset. 0" "MC_MR_local (2, 3) 6 6 0 0 0 0 zero_buffer"]
  have cp: "coprime (2::int) 3" by simp
  have "length (diag_owners 2 3 0 0 0 6) = nat (lcm 2 3)" using t by (elim conjE)
  moreover have "length (diag_owners 2 3 0 0 0 6) = nat (2 * 3)"
    using t[THEN conjunct2, THEN conjunct1] cp by (simp only:)
  ultimately show ?thesis using h l cp by (intro conjI)
qed

section \<open>The reduce-scatter of a replicated matrix\<close>

text \<open>
  Claim C1 at a failing input.  On a \<open>1 \<times> 2\<close> grid every process holds the replica
  \<open>(1, 10, 100)\<close> of a \<open>1 \<times> 3\<close> matrix and the destination is zero.  Process \<open>(0, 0)\<close> owns the
  global entry \<open>(0, 2)\<close>, for which the contract prescribes \<open>0 + 1 * (100 + 100) = 200\<close>; after
  \<^verbatim>\<open>SumScatterUpdate(1, A)\<close> it holds \<open>20\<close>, the sum of the replicas' entries \<open>(0, 1)\<close>.  The pack
  loop steps through the columns of \<open>A\<close> with stride \<^verbatim>\<open>A.LDim()\<close> where the partial variants
  step with the stride times \<^verbatim>\<open>A.LDim()\<close>.
\<close>

theorem SumScatterUpdate_failing_input:
  "owns 1 3 1 2 0 0 0 0 0 2 \<and>
   map_option (\<lambda>M'. global_entry M' 0 2) (result_state (complete_collective 2 SumScatter_scenario 0))
     = Some 20 \<and>
   SumScatterUpdate_spec 1 2 (\<lambda>p. STAR_STAR_local (1, 2) 1 3 row_1_10_100)
       (global_entry (MC_MR_local (1, 2) 1 3 0 0 0 0 zero_buffer) 0 2) 0 2
     = 200"
proof (intro conjI)
  show "owns 1 3 1 2 0 0 0 0 0 2"
    by (simp add: owns_def owns_index_def Shift_def Length_def ceil_quot_def)
  show "map_option (\<lambda>M'. global_entry M' 0 2)
          (result_state (complete_collective 2 SumScatter_scenario 0)) = Some 20"
    by (simp add: complete_collective_def SumScatter_scenario_def SumScatterUpdate_def
          MC_MR_local_def STAR_STAR_local_def Pad_one_def Let_def ColStride_def RowStride_def
          MaxLength_def Length_def ceil_quot_def Shift_def For_def InterleaveMatrix_def
          InterleaveMatrixUpdate_def LockedBuffer_def mpi_ReduceScatter_def row_1_10_100_def
          zero_buffer_def global_entry_def GetLocal_def signed_divide_int_def
          eval_nat_numeral upto.simps)
  show "SumScatterUpdate_spec 1 2 (\<lambda>p. STAR_STAR_local (1, 2) 1 3 row_1_10_100)
          (global_entry (MC_MR_local (1, 2) 1 3 0 0 0 0 zero_buffer) 0 2) 0 2 = 200"
    by (simp add: SumScatterUpdate_spec_def STAR_STAR_local_def MC_MR_local_def row_1_10_100_def
          zero_buffer_def global_entry_def GetLocal_def upto.simps)
qed

end
